theory Spec2Isabelle
  imports Main "HOL-Library.AList"
begin

section \<open>Python values, dictionaries and exceptions\<close>

text \<open>
  Attribute values are JSON-like Python objects.  \<open>truthy\<close> is Python's truth test,
  the one \<^verbatim>\<open>not x\<close> applies; \<open>x is True\<close> holds for the boolean \<open>True\<close> only,
  which is \<open>PyBool True\<close> here.
\<close>

datatype pyval = PyNone | PyBool bool | PyInt int | PyStr string | PyList "pyval list"

fun truthy :: "pyval \<Rightarrow> bool" where
  "truthy PyNone = False"
| "truthy (PyBool b) = b"
| "truthy (PyInt i) = (i \<noteq> 0)"
| "truthy (PyStr s) = (s \<noteq> [])"
| "truthy (PyList vs) = (vs \<noteq> [])"

text \<open>
  The exceptions the module raises or lets through.  \<open>KeyError\<close> is what the trial
  store raises for a study or trial it does not hold, \<open>UpdateFinishedTrialError\<close>
  what it raises when asked to change a finished trial.
\<close>

datatype error =
    RuntimeError string
  | ValueError string
  | KeyError
  | IndexError
  | DuplicatedStudyError
  | UpdateFinishedTrialError
  | AssertionError

text \<open>
  A dictionary with string keys, in insertion order.  \<open>dict_get\<close> is
  \<^verbatim>\<open>d.get(key)\<close>: the value, or \<open>None\<close> for a missing key.  \<open>dict_set\<close> is
  \<^verbatim>\<open>d[key] = value\<close>.
\<close>

type_synonym attrs = "(string \<times> pyval) list"

definition dict_get :: "attrs \<Rightarrow> string \<Rightarrow> pyval" where
  "dict_get d key = (case map_of d key of None \<Rightarrow> PyNone | Some v \<Rightarrow> v)"

definition dict_set :: "attrs \<Rightarrow> string \<Rightarrow> pyval \<Rightarrow> attrs" where
  "dict_set d key v = AList.update key v d"

text \<open>
  Subscription \<^verbatim>\<open>trials[i]\<close> of a Python list of length \<open>n\<close>: the positions are
  \<open>0\<close> to \<open>n - 1\<close>, the indices \<open>-n\<close> to \<open>-1\<close> name the same positions from the end,
  and every other index raises \<open>IndexError\<close>.
\<close>

definition py_index :: "'a list \<Rightarrow> int \<Rightarrow> error + 'a" where
  "py_index xs i =
     (if 0 \<le> i \<and> i < int (length xs) then Inr (xs ! nat i)
      else if i < 0 \<and> - int (length xs) \<le> i then Inr (xs ! nat (int (length xs) + i))
      else Inl IndexError)"

text \<open>
  \<^verbatim>\<open>copy.deepcopy\<close>: an equal value at a fresh address.  Values here carry no
  address, so the copy is the value itself; what the model cannot express is the
  aliasing between a returned trial and the store.
\<close>

definition deepcopy :: "'a \<Rightarrow> 'a" where
  "deepcopy x = x"

section \<open>The module's constants\<close>

definition SYSTEM_ATTR_PREFERENTIAL_STUDY :: string where
  "SYSTEM_ATTR_PREFERENTIAL_STUDY = ''preference:is_preferential''"

definition SYSTEM_ATTR_COMPARISON_READY :: string where
  "SYSTEM_ATTR_COMPARISON_READY = ''preference:comparison_ready''"

section \<open>Trials, studies and the trial store\<close>

datatype TrialState = RUNNING | COMPLETE | PRUNED | FAIL | WAITING

text \<open>
  \<open>FrozenTrial\<close> is the snapshot of a trial the store hands out; \<open>Trial\<close> is the live
  handle \<^verbatim>\<open>ask\<close> returns, of which the module reads \<^verbatim>\<open>_trial_id\<close> only.
\<close>

record FrozenTrial =
  number :: int
  state :: TrialState
  system_attrs :: attrs
  trial_id :: int

record Trial =
  live_trial_id :: int

text \<open>
  The trial store is the external collaborator (optuna's storage).  It is modelled
  as the list of its studies, each with its name, its two attribute dictionaries,
  its trials in creation order and the Preference Ledger of the study.
\<close>

record StudyRecord =
  sr_id :: int
  sr_name :: string
  sr_system_attrs :: attrs
  sr_user_attrs :: attrs
  sr_trials :: "FrozenTrial list"
  sr_ledger :: "(int \<times> int) list"

record storage =
  studies :: "StudyRecord list"

text \<open>
  \<open>Study\<close> is optuna's study object: the module reads \<^verbatim>\<open>_study_id\<close> and
  \<^verbatim>\<open>_storage\<close> of it.  The store is passed explicitly to every operation, so the
  handle keeps the id.
\<close>

record Study =
  study_id :: int

datatype PreferentialStudy = PreferentialStudy (study_of: Study)

definition find_study :: "storage \<Rightarrow> int \<Rightarrow> StudyRecord option" where
  "find_study st sid = find (\<lambda>s. sr_id s = sid) (studies st)"

definition find_study_by_name :: "storage \<Rightarrow> string \<Rightarrow> StudyRecord option" where
  "find_study_by_name st name = find (\<lambda>s. sr_name s = name) (studies st)"

text \<open>
  \<open>update_study st sid f\<close> rewrites the record of study \<open>sid\<close> in place; the other
  studies and the order of the list stay.
\<close>

definition update_study :: "storage \<Rightarrow> int \<Rightarrow> (StudyRecord \<Rightarrow> StudyRecord) \<Rightarrow> storage" where
  "update_study st sid f =
     st\<lparr>studies := map (\<lambda>s. if sr_id s = sid then f s else s) (studies st)\<rparr>"

text \<open>
  \<^verbatim>\<open>storage.get_all_trials(study_id, deepcopy, states)\<close>: the trials of the study
  in the store's order, those in one of \<open>states\<close> when \<open>states\<close> is given.
\<close>

definition get_all_trials ::
  "storage \<Rightarrow> int \<Rightarrow> bool \<Rightarrow> TrialState list option \<Rightarrow> error + FrozenTrial list" where
  "get_all_trials st sid dc states =
     (case find_study st sid of
        None \<Rightarrow> Inl KeyError
      | Some s \<Rightarrow>
          (let ts = (case states of
                       None \<Rightarrow> sr_trials s
                     | Some ss \<Rightarrow> filter (\<lambda>t. state t \<in> set ss) (sr_trials s))
           in Inr (if dc then map deepcopy ts else ts)))"

text \<open>\<^verbatim>\<open>storage.get_trial_id_from_study_id_trial_number(study_id, number)\<close>.\<close>

definition get_trial_id_from_study_id_trial_number :: "storage \<Rightarrow> int \<Rightarrow> int \<Rightarrow> error + int" where
  "get_trial_id_from_study_id_trial_number st sid n =
     (case find_study st sid of
        None \<Rightarrow> Inl KeyError
      | Some s \<Rightarrow>
          (case find (\<lambda>t. number t = n) (sr_trials s) of
             None \<Rightarrow> Inl KeyError
           | Some t \<Rightarrow> Inr (trial_id t)))"

text \<open>
  \<^verbatim>\<open>storage.set_trial_system_attr(trial_id, key, value)\<close>.  The store looks the
  trial up by its id, refuses to update a finished trial (optuna's
  \<^verbatim>\<open>check_trial_is_updatable\<close>) and otherwise stores the value under the key.
  On an error the store is unchanged.
\<close>

definition all_trials :: "storage \<Rightarrow> FrozenTrial list" where
  "all_trials st = concat (map sr_trials (studies st))"

definition find_trial :: "storage \<Rightarrow> int \<Rightarrow> FrozenTrial option" where
  "find_trial st tid = find (\<lambda>t. trial_id t = tid) (all_trials st)"

definition is_finished :: "TrialState \<Rightarrow> bool" where
  "is_finished s = (s = COMPLETE \<or> s = PRUNED \<or> s = FAIL)"

definition set_attr_of_trial :: "int \<Rightarrow> string \<Rightarrow> pyval \<Rightarrow> FrozenTrial \<Rightarrow> FrozenTrial" where
  "set_attr_of_trial tid key v t =
     (if trial_id t = tid then t\<lparr>system_attrs := dict_set (system_attrs t) key v\<rparr> else t)"

definition set_trial_system_attr ::
  "storage \<Rightarrow> int \<Rightarrow> string \<Rightarrow> pyval \<Rightarrow> (error + unit) \<times> storage" where
  "set_trial_system_attr st tid key v =
     (case find_trial st tid of
        None \<Rightarrow> (Inl KeyError, st)
      | Some t \<Rightarrow>
          if is_finished (state t)
          then (Inl UpdateFinishedTrialError, st)
          else (Inr (),
                st\<lparr>studies :=
                     map (\<lambda>s. s\<lparr>sr_trials := map (set_attr_of_trial tid key v) (sr_trials s)\<rparr>)
                       (studies st)\<rparr>))"

text \<open>The study-level attribute calls of the store.\<close>

definition set_study_system_attr ::
  "storage \<Rightarrow> int \<Rightarrow> string \<Rightarrow> pyval \<Rightarrow> (error + unit) \<times> storage" where
  "set_study_system_attr st sid key v =
     (case find_study st sid of
        None \<Rightarrow> (Inl KeyError, st)
      | Some _ \<Rightarrow>
          (Inr (),
           update_study st sid (\<lambda>s. s\<lparr>sr_system_attrs := dict_set (sr_system_attrs s) key v\<rparr>)))"

definition get_study_system_attrs :: "storage \<Rightarrow> int \<Rightarrow> error + attrs" where
  "get_study_system_attrs st sid =
     (case find_study st sid of None \<Rightarrow> Inl KeyError | Some s \<Rightarrow> Inr (sr_system_attrs s))"

definition set_study_user_attr ::
  "storage \<Rightarrow> int \<Rightarrow> string \<Rightarrow> pyval \<Rightarrow> (error + unit) \<times> storage" where
  "set_study_user_attr st sid key v =
     (case find_study st sid of
        None \<Rightarrow> (Inl KeyError, st)
      | Some _ \<Rightarrow>
          (Inr (),
           update_study st sid (\<lambda>s. s\<lparr>sr_user_attrs := dict_set (sr_user_attrs s) key v\<rparr>)))"

section \<open>The Preference Ledger\<close>

text \<open>
  Modelled from the spec: \<^verbatim>\<open>report_preferences\<close> and \<^verbatim>\<open>get_preferences\<close> of
  \<^verbatim>\<open>optuna_dashboard.preferential._system_attrs\<close>, which the module imports and whose
  code is not among the sources.  The spec's Ledger is an ordered sequence of
  statements per study: \<open>append\<close> adds all the given pairs at the end, with no
  validation of the numbers, and \<open>read_all\<close> returns every statement in insertion
  order.  Both let the store's error for an unknown study through.
\<close>

definition report_preferences ::
  "int \<Rightarrow> storage \<Rightarrow> (int \<times> int) list \<Rightarrow> (error + unit) \<times> storage" where
  "report_preferences sid st preferences =
     (case find_study st sid of
        None \<Rightarrow> (Inl KeyError, st)
      | Some _ \<Rightarrow>
          (Inr (), update_study st sid (\<lambda>s. s\<lparr>sr_ledger := sr_ledger s @ preferences\<rparr>)))"

definition get_preferences :: "int \<Rightarrow> storage \<Rightarrow> error + (int \<times> int) list" where
  "get_preferences sid st =
     (case find_study st sid of None \<Rightarrow> Inl KeyError | Some s \<Rightarrow> Inr (sr_ledger s))"

section \<open>PreferentialStudy\<close>

text \<open>
  \<^verbatim>\<open>Study.get_trials(deepcopy, states)\<close> of optuna reads the study's trials from the
  store; \<^verbatim>\<open>PreferentialStudy.get_trials\<close> and \<^verbatim>\<open>PreferentialStudy.trials\<close> pass
  through to it.
\<close>

definition Study_get_trials ::
  "Study \<Rightarrow> storage \<Rightarrow> bool \<Rightarrow> TrialState list option \<Rightarrow> error + FrozenTrial list" where
  "Study_get_trials s st dc states = get_all_trials st (study_id s) dc states"

definition PreferentialStudy_get_trials ::
  "PreferentialStudy \<Rightarrow> storage \<Rightarrow> bool \<Rightarrow> TrialState list option \<Rightarrow> error + FrozenTrial list" where
  "PreferentialStudy_get_trials self st dc states = Study_get_trials (study_of self) st dc states"

definition PreferentialStudy_trials :: "PreferentialStudy \<Rightarrow> storage \<Rightarrow> error + FrozenTrial list" where
  "PreferentialStudy_trials self st = Study_get_trials (study_of self) st True None"

text \<open>
  \<^verbatim>\<open>report_preference\<close> takes one trial or a list of trials on each side.  A value
  that is not a list is wrapped into a one-element list; the pairs of numbers are
  built by the comprehension of the source, \<open>better\<close> in the outer loop, and handed to
  the Ledger in one call.
\<close>

datatype trial_arg = One FrozenTrial | Many "FrozenTrial list"

fun as_list :: "trial_arg \<Rightarrow> FrozenTrial list" where
  "as_list (One t) = [t]"
| "as_list (Many ts) = ts"

definition PreferentialStudy_report_preference ::
  "PreferentialStudy \<Rightarrow> trial_arg \<Rightarrow> trial_arg \<Rightarrow> storage \<Rightarrow> (error + unit) \<times> storage" where
  "PreferentialStudy_report_preference self better_trials worse_trials st =
     (let better = as_list better_trials;
          worse = as_list worse_trials
      in report_preferences (study_id (study_of self)) st
           (concat (map (\<lambda>b. map (\<lambda>w. (number b, number w)) worse) better)))"

text \<open>
  \<^verbatim>\<open>get_preferences\<close> reads the trials and the Ledger and resolves each number by
  indexing the list of trials.  The comprehension evaluates \<^verbatim>\<open>trials[better]\<close>, then
  \<^verbatim>\<open>trials[worse]\<close>, pair after pair, and the first index out of range raises.
\<close>

fun resolve_pairs ::
  "FrozenTrial list \<Rightarrow> (int \<times> int) list \<Rightarrow> error + (FrozenTrial \<times> FrozenTrial) list" where
  "resolve_pairs trials [] = Inr []"
| "resolve_pairs trials ((better, worse) # ps) =
     (case py_index trials better of
        Inl e \<Rightarrow> Inl e
      | Inr tb \<Rightarrow>
          (case py_index trials worse of
             Inl e \<Rightarrow> Inl e
           | Inr tw \<Rightarrow>
               (case resolve_pairs trials ps of
                  Inl e \<Rightarrow> Inl e
                | Inr rs \<Rightarrow> Inr ((tb, tw) # rs))))"

definition PreferentialStudy_get_preferences ::
  "PreferentialStudy \<Rightarrow> bool \<Rightarrow> storage \<Rightarrow> error + (FrozenTrial \<times> FrozenTrial) list" where
  "PreferentialStudy_get_preferences self dc st =
     (case Study_get_trials (study_of self) st dc None of
        Inl e \<Rightarrow> Inl e
      | Inr trials \<Rightarrow>
          (case get_preferences (study_id (study_of self)) st of
             Inl e \<Rightarrow> Inl e
           | Inr preferences \<Rightarrow> resolve_pairs trials preferences))"

definition PreferentialStudy_preferences ::
  "PreferentialStudy \<Rightarrow> storage \<Rightarrow> error + (FrozenTrial \<times> FrozenTrial) list" where
  "PreferentialStudy_preferences self st = PreferentialStudy_get_preferences self True st"

text \<open>\<^verbatim>\<open>set_user_attr\<close> passes through to optuna's study, which writes to the store.\<close>

definition PreferentialStudy_set_user_attr ::
  "PreferentialStudy \<Rightarrow> string \<Rightarrow> pyval \<Rightarrow> storage \<Rightarrow> (error + unit) \<times> storage" where
  "PreferentialStudy_set_user_attr self key v st =
     set_study_user_attr st (study_id (study_of self)) key v"

text \<open>
  The argument of \<^verbatim>\<open>mark_comparison_ready\<close> is any Python object: a live trial, or
  a value.  \<^verbatim>\<open>isinstance(x, int)\<close> holds for an \<open>int\<close> and for a \<open>bool\<close> (a subclass
  of \<open>int\<close>: \<open>True\<close> is 1, \<open>False\<close> is 0).
\<close>

datatype py_object = TrialObj Trial | ValueObj pyval

fun as_int :: "pyval \<Rightarrow> int option" where
  "as_int (PyInt i) = Some i"
| "as_int (PyBool b) = Some (if b then 1 else 0)"
| "as_int _ = None"

definition PreferentialStudy_mark_comparison_ready ::
  "PreferentialStudy \<Rightarrow> py_object \<Rightarrow> storage \<Rightarrow> (error + unit) \<times> storage" where
  "PreferentialStudy_mark_comparison_ready self trial_or_number st =
     (case trial_or_number of
        TrialObj t \<Rightarrow>
          set_trial_system_attr st (live_trial_id t) SYSTEM_ATTR_COMPARISON_READY (PyBool True)
      | ValueObj v \<Rightarrow>
          (case as_int v of
             Some n \<Rightarrow>
               (case get_trial_id_from_study_id_trial_number st (study_id (study_of self)) n of
                  Inl e \<Rightarrow> (Inl e, st)
                | Inr tid \<Rightarrow>
                    set_trial_system_attr st tid SYSTEM_ATTR_COMPARISON_READY (PyBool True))
           | None \<Rightarrow> (Inl (RuntimeError ''Unexpected trial type''), st)))"

section \<open>The frontier\<close>

definition comparison_ready :: "FrozenTrial \<Rightarrow> bool" where
  "comparison_ready t = (dict_get (system_attrs t) SYSTEM_ATTR_COMPARISON_READY = PyBool True)"

definition get_best_trials :: "int \<Rightarrow> storage \<Rightarrow> error + FrozenTrial list" where
  "get_best_trials sid st =
     (case get_all_trials st sid False (Some [COMPLETE, RUNNING]) of
        Inl e \<Rightarrow> Inl e
      | Inr ts \<Rightarrow>
          (let ready_trials = filter comparison_ready ts
           in case get_preferences sid st of
                Inl e \<Rightarrow> Inl e
              | Inr preferences \<Rightarrow>
                  (let worse_numbers = set (map snd preferences)
                   in Inr (map deepcopy
                             (filter (\<lambda>t. number t \<notin> worse_numbers) ready_trials)))))"

definition PreferentialStudy_best_trials :: "PreferentialStudy \<Rightarrow> storage \<Rightarrow> error + FrozenTrial list" where
  "PreferentialStudy_best_trials self st = get_best_trials (study_id (study_of self)) st"

section \<open>Creating and loading a study\<close>

text \<open>
  \<^verbatim>\<open>optuna.create_study(storage, sampler, study_name)\<close>: a study without a name gets
  a generated one (\<^verbatim>\<open>no-name-\<close> and a random \<open>uuid\<close>, an input here); a name the
  store already holds raises \<open>DuplicatedStudyError\<close>; otherwise the store adds an
  empty study under an id it has not used.  The sampler plays no part in what is
  stored and is left out.
\<close>

definition given_or_generated_name :: "string option \<Rightarrow> string \<Rightarrow> string" where
  "given_or_generated_name study_name uuid =
     (case study_name of None \<Rightarrow> ''no-name-'' @ uuid | Some n \<Rightarrow> n)"

definition fresh_study_id :: "storage \<Rightarrow> int" where
  "fresh_study_id st = foldr (\<lambda>s m. max (sr_id s + 1) m) (studies st) 0"

definition optuna_create_study ::
  "storage \<Rightarrow> string option \<Rightarrow> string \<Rightarrow> (error + Study) \<times> storage" where
  "optuna_create_study st study_name uuid =
     (let name = given_or_generated_name study_name uuid
      in case find_study_by_name st name of
           Some _ \<Rightarrow> (Inl DuplicatedStudyError, st)
         | None \<Rightarrow>
             (let sid = fresh_study_id st
              in (Inr \<lparr>study_id = sid\<rparr>,
                  st\<lparr>studies := studies st @
                       [\<lparr>sr_id = sid, sr_name = name, sr_system_attrs = [],
                         sr_user_attrs = [], sr_trials = [], sr_ledger = []\<rparr>]\<rparr>)))"

text \<open>
  \<^verbatim>\<open>optuna.load_study(study_name, storage, sampler)\<close>: without a name the store
  must hold exactly one study; a name the store does not hold raises \<open>KeyError\<close>.
\<close>

definition optuna_load_study :: "storage \<Rightarrow> string option \<Rightarrow> error + Study" where
  "optuna_load_study st study_name =
     (case study_name of
        None \<Rightarrow>
          (case studies st of
             [s] \<Rightarrow> Inr \<lparr>study_id = sr_id s\<rparr>
           | _ \<Rightarrow> Inl (ValueError ''Could not determine the study name''))
      | Some n \<Rightarrow>
          (case find_study_by_name st n of
             None \<Rightarrow> Inl KeyError
           | Some s \<Rightarrow> Inr \<lparr>study_id = sr_id s\<rparr>))"

definition load_study :: "string option \<Rightarrow> storage \<Rightarrow> error + PreferentialStudy" where
  "load_study study_name st =
     (case optuna_load_study st study_name of
        Inl e \<Rightarrow> Inl e
      | Inr study \<Rightarrow>
          (case get_study_system_attrs st (study_id study) of
             Inl e \<Rightarrow> Inl e
           | Inr sys_attrs \<Rightarrow>
               if \<not> truthy (dict_get sys_attrs SYSTEM_ATTR_PREFERENTIAL_STUDY)
               then Inl (ValueError ''The study is not a PreferentialStudy.'')
               else Inr (PreferentialStudy study)))"

text \<open>
  \<^verbatim>\<open>create_study\<close>.  \<open>storage = None\<close> makes optuna start a new in-memory store.
  The \<^verbatim>\<open>try\<close> block creates the study and sets the marker; the handler catches
  \<open>DuplicatedStudyError\<close> only, and with \<open>load_if_exists\<close> it asserts that a name and
  a store were given and loads the existing study.
\<close>

definition new_storage :: storage where
  "new_storage = \<lparr>studies = []\<rparr>"

definition create_study_try ::
  "storage \<Rightarrow> string option \<Rightarrow> string \<Rightarrow> (error + PreferentialStudy) \<times> storage" where
  "create_study_try st study_name uuid =
     (case optuna_create_study st study_name uuid of
        (Inl e, st1) \<Rightarrow> (Inl e, st1)
      | (Inr study, st1) \<Rightarrow>
          (case set_study_system_attr st1 (study_id study)
                  SYSTEM_ATTR_PREFERENTIAL_STUDY (PyBool True) of
             (Inl e, st2) \<Rightarrow> (Inl e, st2)
           | (Inr _, st2) \<Rightarrow> (Inr (PreferentialStudy study), st2)))"

definition create_study ::
  "storage option \<Rightarrow> string option \<Rightarrow> bool \<Rightarrow> string \<Rightarrow> (error + PreferentialStudy) \<times> storage" where
  "create_study storage_arg study_name load_if_exists uuid =
     (let st = (case storage_arg of None \<Rightarrow> new_storage | Some s \<Rightarrow> s)
      in case create_study_try st study_name uuid of
           (Inl DuplicatedStudyError, st1) \<Rightarrow>
             if load_if_exists
             then (if study_name = None then (Inl AssertionError, st1)
                   else if storage_arg = None then (Inl AssertionError, st1)
                   else (load_study study_name st1, st1))
             else (Inl DuplicatedStudyError, st1)
         | (r, st1) \<Rightarrow> (r, st1))"

section \<open>Statements of the specification\<close>

text \<open>
  The frontier in the spec's words: the trials in state complete or running that are
  ready and whose number is the worse element of no statement.
\<close>

definition frontier :: "FrozenTrial list \<Rightarrow> (int \<times> int) list \<Rightarrow> FrozenTrial list" where
  "frontier ts preferences =
     filter (\<lambda>t. (state t = COMPLETE \<or> state t = RUNNING) \<and> comparison_ready t
                 \<and> number t \<notin> snd ` set preferences) ts"

text \<open>
  The statements one call of \<^verbatim>\<open>report_preference\<close> stands for in the spec: the cross
  product of the numbers of the better trials and of the worse trials, a single trial
  counting as a list of one.
\<close>

definition numbers_of :: "trial_arg \<Rightarrow> int list" where
  "numbers_of a = (case a of One t \<Rightarrow> [number t] | Many ts \<Rightarrow> map number ts)"

definition statements_of :: "trial_arg \<Rightarrow> trial_arg \<Rightarrow> (int \<times> int) list" where
  "statements_of better worse = List.product (numbers_of better) (numbers_of worse)"

text \<open>
  Dense numbering: the trial at position \<open>i\<close> of the store's list has number \<open>i\<close>.
  A statement references existing trials when both its numbers are numbers of
  trials of the list.
\<close>

definition dense_numbering :: "FrozenTrial list \<Rightarrow> bool" where
  "dense_numbering ts = (map number ts = map int [0..<length ts])"

definition references_exist :: "FrozenTrial list \<Rightarrow> (int \<times> int) list \<Rightarrow> bool" where
  "references_exist ts preferences =
     list_all (\<lambda>p. fst p \<in> number ` set ts \<and> snd p \<in> number ` set ts) preferences"

text \<open>Resolution of a statement by looking the numbers up, as the spec describes it.\<close>

definition lookup_number :: "FrozenTrial list \<Rightarrow> int \<Rightarrow> FrozenTrial option" where
  "lookup_number ts n = find (\<lambda>t. number t = n) ts"

fun resolve_by_number ::
  "FrozenTrial list \<Rightarrow> (int \<times> int) list \<Rightarrow> (FrozenTrial \<times> FrozenTrial) list option" where
  "resolve_by_number ts [] = Some []"
| "resolve_by_number ts ((better, worse) # ps) =
     (case (lookup_number ts better, lookup_number ts worse, resolve_by_number ts ps) of
        (Some tb, Some tw, Some rs) \<Rightarrow> Some ((tb, tw) # rs)
      | _ \<Rightarrow> None)"

definition numbers_of_pair :: "FrozenTrial \<times> FrozenTrial \<Rightarrow> int \<times> int" where
  "numbers_of_pair p = (number (fst p), number (snd p))"

section \<open>Sequences of operations\<close>

text \<open>A sequence of \<^verbatim>\<open>report_preference\<close> calls on one study, each on the store the last left.\<close>

fun report_all :: "PreferentialStudy \<Rightarrow> (trial_arg \<times> trial_arg) list \<Rightarrow> storage \<Rightarrow> storage" where
  "report_all self [] st = st"
| "report_all self ((better, worse) # calls) st =
     report_all self calls (snd (PreferentialStudy_report_preference self better worse st))"

text \<open>The statements a sequence of calls stands for, call after call.\<close>

definition reported :: "(trial_arg \<times> trial_arg) list \<Rightarrow> (int \<times> int) list" where
  "reported calls = concat (map (\<lambda>c. statements_of (fst c) (snd c)) calls)"

text \<open>
  The operations of the module that write to the store, and a run of them.  An
  operation that raises leaves the store as the exception found it.  \<^verbatim>\<open>ask\<close>,
  \<^verbatim>\<open>add_trial\<close> and \<^verbatim>\<open>add_trials\<close> pass their arguments on to optuna's study,
  whose trial engine is outside the module; they are not among the operations.
\<close>

datatype core_op =
    ReportPreference PreferentialStudy trial_arg trial_arg
  | MarkComparisonReady PreferentialStudy py_object
  | SetUserAttr PreferentialStudy string pyval
  | CreateStudy "string option" bool string

fun apply_op :: "storage \<Rightarrow> core_op \<Rightarrow> storage" where
  "apply_op st (ReportPreference self better worse) =
     snd (PreferentialStudy_report_preference self better worse st)"
| "apply_op st (MarkComparisonReady self x) =
     snd (PreferentialStudy_mark_comparison_ready self x st)"
| "apply_op st (SetUserAttr self key v) =
     snd (PreferentialStudy_set_user_attr self key v st)"
| "apply_op st (CreateStudy study_name load_if_exists uuid) =
     snd (create_study (Some st) study_name load_if_exists uuid)"

definition run_ops :: "storage \<Rightarrow> core_op list \<Rightarrow> storage" where
  "run_ops st ops = foldl apply_op st ops"

text \<open>Whether a trial of the given id is marked ready in the store.\<close>

definition is_ready :: "storage \<Rightarrow> int \<Rightarrow> bool" where
  "is_ready st tid = list_ex (\<lambda>t. trial_id t = tid \<and> comparison_ready t) (all_trials st)"


text \<open>Whether the study of a handle carries the preferential marker in the store.\<close>

definition has_marker :: "storage \<Rightarrow> PreferentialStudy \<Rightarrow> bool" where
  "has_marker st ps =
     (case get_study_system_attrs st (study_id (study_of ps)) of
        Inl _ \<Rightarrow> False
      | Inr a \<Rightarrow> truthy (dict_get a SYSTEM_ATTR_PREFERENTIAL_STUDY))"

text \<open>The store after a successful \<^verbatim>\<open>set_trial_system_attr\<close>.\<close>

definition mark_trials :: "int \<Rightarrow> string \<Rightarrow> pyval \<Rightarrow> storage \<Rightarrow> storage" where
  "mark_trials tid key v st =
     st\<lparr>studies :=
          map (\<lambda>s. s\<lparr>sr_trials := map (set_attr_of_trial tid key v) (sr_trials s)\<rparr>) (studies st)\<rparr>"

text \<open>
  The store after \<^verbatim>\<open>create_study\<close> has created a study: the store before with one
  more study, of a new id, empty but for the preferential marker.
\<close>

definition marked_new_study :: "storage \<Rightarrow> string \<Rightarrow> StudyRecord" where
  "marked_new_study st name =
     \<lparr>sr_id = fresh_study_id st, sr_name = name,
      sr_system_attrs = [(SYSTEM_ATTR_PREFERENTIAL_STUDY, PyBool True)],
      sr_user_attrs = [], sr_trials = [], sr_ledger = []\<rparr>"

definition with_new_study :: "storage \<Rightarrow> string \<Rightarrow> storage" where
  "with_new_study st name = st\<lparr>studies := studies st @ [marked_new_study st name]\<rparr>"

section \<open>Example stores\<close>

text \<open>
  A store with one preferential study, of id 0 and name \<open>s\<close>, built from its trials
  and its Ledger; the trial of number \<open>n\<close> has id \<open>10 + n\<close>.  The closed instances
  below are evaluated on such stores.
\<close>

definition ready_attrs :: attrs where
  "ready_attrs = [(SYSTEM_ATTR_COMPARISON_READY, PyBool True)]"

definition trial_of :: "int \<Rightarrow> TrialState \<Rightarrow> attrs \<Rightarrow> FrozenTrial" where
  "trial_of n s a = \<lparr>number = n, state = s, system_attrs = a, trial_id = 10 + n\<rparr>"

definition study_of_trials :: "attrs \<Rightarrow> FrozenTrial list \<Rightarrow> (int \<times> int) list \<Rightarrow> StudyRecord" where
  "study_of_trials a ts l =
     \<lparr>sr_id = 0, sr_name = ''s'', sr_system_attrs = a, sr_user_attrs = [],
      sr_trials = ts, sr_ledger = l\<rparr>"

definition example_store :: "FrozenTrial list \<Rightarrow> (int \<times> int) list \<Rightarrow> storage" where
  "example_store ts l =
     \<lparr>studies = [study_of_trials [(SYSTEM_ATTR_PREFERENTIAL_STUDY, PyBool True)] ts l]\<rparr>"

definition example_study :: PreferentialStudy where
  "example_study = PreferentialStudy \<lparr>study_id = 0\<rparr>"

text \<open>A store whose only study, of id 0 and name \<open>s\<close>, carries no marker.\<close>

definition plain_store :: storage where
  "plain_store = \<lparr>studies = [study_of_trials [] [] []]\<rparr>"

section \<open>Reading the store\<close>

lemma map_deepcopy: "map deepcopy xs = xs"
  by (induction xs) (simp_all add: deepcopy_def)

lemma get_all_trials_Inr_iff:
  "get_all_trials st sid dc None = Inr ts \<longleftrightarrow>
     (\<exists>s. find_study st sid = Some s \<and> ts = sr_trials s)"
  by (auto simp: get_all_trials_def map_deepcopy Let_def split: option.splits)

lemma get_preferences_Inr_iff:
  "get_preferences sid st = Inr prefs \<longleftrightarrow>
     (\<exists>s. find_study st sid = Some s \<and> prefs = sr_ledger s)"
  by (auto simp: get_preferences_def split: option.splits)

section \<open>The frontier is the set of ready trials that never lost\<close>

lemma get_best_trials_found:
  assumes "find_study st sid = Some s"
  shows "get_best_trials sid st = Inr (map deepcopy (frontier (sr_trials s) (sr_ledger s)))"
proof -
  have "filter (\<lambda>t. number t \<notin> set (map snd (sr_ledger s)))
          (filter comparison_ready
             (filter (\<lambda>t. state t \<in> set [COMPLETE, RUNNING]) (sr_trials s)))
        = frontier (sr_trials s) (sr_ledger s)"
    by (auto simp: frontier_def intro: filter_cong)
  with assms show ?thesis
    by (simp add: get_best_trials_def get_all_trials_def get_preferences_def)
qed

text \<open>
  C1.  Let \<open>ts\<close> be the trials of the study as the store lists them and \<open>prefs\<close> the
  statements of its Ledger.  Then \<open>get_best_trials\<close> returns the copies of exactly the
  trials of \<open>ts\<close>, in their order, that are in state \<open>COMPLETE\<close> or \<open>RUNNING\<close>, carry
  the comparison-ready flag \<open>True\<close>, and whose number is the worse element of no
  statement of \<open>prefs\<close>.  How often a trial is the better element plays no part, and
  a trial with no statement at all passes the last test.
\<close>

theorem get_best_trials_frontier:
  assumes "get_all_trials st sid False None = Inr ts"
    and "get_preferences sid st = Inr prefs"
  shows "get_best_trials sid st = Inr (map deepcopy (frontier ts prefs))"
  using assms
  by (auto simp: get_all_trials_Inr_iff get_preferences_Inr_iff get_best_trials_found)

text \<open>
  An instance: trial 0 is ready and in no statement (kept); trial 1 is ready, twice
  better and once worse (dropped); trial 2 never lost but is not ready (dropped);
  trial 3 is ready and only ever better (kept); trial 4 is ready and never lost but
  failed (dropped); trial 5 is waiting and lost (dropped).
\<close>

theorem get_best_trials_frontier_witness:
  "get_all_trials
     (example_store
        [trial_of 0 COMPLETE ready_attrs, trial_of 1 RUNNING ready_attrs,
         trial_of 2 COMPLETE [], trial_of 3 COMPLETE ready_attrs,
         trial_of 4 FAIL ready_attrs, trial_of 5 WAITING ready_attrs]
        [(1, 5), (1, 5), (3, 1)]) 0 False None
     = Inr [trial_of 0 COMPLETE ready_attrs, trial_of 1 RUNNING ready_attrs,
            trial_of 2 COMPLETE [], trial_of 3 COMPLETE ready_attrs,
            trial_of 4 FAIL ready_attrs, trial_of 5 WAITING ready_attrs]
   \<and> get_preferences 0
       (example_store
        [trial_of 0 COMPLETE ready_attrs, trial_of 1 RUNNING ready_attrs,
         trial_of 2 COMPLETE [], trial_of 3 COMPLETE ready_attrs,
         trial_of 4 FAIL ready_attrs, trial_of 5 WAITING ready_attrs]
        [(1, 5), (1, 5), (3, 1)])
     = Inr [(1, 5), (1, 5), (3, 1)]
   \<and> get_best_trials 0
       (example_store
        [trial_of 0 COMPLETE ready_attrs, trial_of 1 RUNNING ready_attrs,
         trial_of 2 COMPLETE [], trial_of 3 COMPLETE ready_attrs,
         trial_of 4 FAIL ready_attrs, trial_of 5 WAITING ready_attrs]
        [(1, 5), (1, 5), (3, 1)])
     = Inr [trial_of 0 COMPLETE ready_attrs, trial_of 3 COMPLETE ready_attrs]"
proof -
  let ?ts = "[trial_of 0 COMPLETE ready_attrs, trial_of 1 RUNNING ready_attrs,
         trial_of 2 COMPLETE [], trial_of 3 COMPLETE ready_attrs,
         trial_of 4 FAIL ready_attrs, trial_of 5 WAITING ready_attrs]"
  let ?l = "[(1, 5), (1, 5), (3, 1)] :: (int \<times> int) list"
  have a: "get_all_trials (example_store ?ts ?l) 0 False None = Inr ?ts"
    by (simp add: get_all_trials_def find_study_def example_store_def study_of_trials_def)
  have b: "get_preferences 0 (example_store ?ts ?l) = Inr ?l"
    by (simp add: get_preferences_def find_study_def example_store_def study_of_trials_def)
  have c: "map deepcopy (frontier ?ts ?l)
           = [trial_of 0 COMPLETE ready_attrs, trial_of 3 COMPLETE ready_attrs]"
    by (simp add: frontier_def comparison_ready_def dict_get_def deepcopy_def trial_of_def
        ready_attrs_def SYSTEM_ATTR_COMPARISON_READY_def)
  from get_best_trials_frontier [OF a b] a b c show ?thesis by simp
qed

lemma frontier_ready: "t \<in> set (frontier ts prefs) \<Longrightarrow> comparison_ready t"
  by (simp add: frontier_def)

lemma frontier_never_worse:
  "t \<in> set (frontier ts prefs) \<Longrightarrow> number t \<notin> snd ` set prefs"
  by (simp add: frontier_def)

text \<open>
  C10.  For a study the store holds, \<open>get_best_trials\<close> returns, and every trial it
  returns has the comparison-ready attribute equal to the boolean \<open>True\<close>.  A trial
  whose attribute is absent (\<open>dict_get\<close> gives \<open>None\<close>) or holds any other value, a
  truthy one such as \<open>1\<close> or a non-empty string included, is therefore not returned.
\<close>

theorem get_best_trials_only_True:
  assumes "get_all_trials st sid False None = Inr ts"
  shows "\<exists>best. get_best_trials sid st = Inr best
           \<and> (\<forall>t \<in> set best.
                 dict_get (system_attrs t) SYSTEM_ATTR_COMPARISON_READY = PyBool True)"
proof -
  from assms obtain s where s: "find_study st sid = Some s"
    by (auto simp: get_all_trials_Inr_iff)
  have "\<forall>t \<in> set (map deepcopy (frontier (sr_trials s) (sr_ledger s))).
          dict_get (system_attrs t) SYSTEM_ATTR_COMPARISON_READY = PyBool True"
    using frontier_ready by (auto simp: map_deepcopy comparison_ready_def)
  with get_best_trials_found [OF s] show ?thesis by blast
qed

text \<open>
  An instance: of five complete trials that never lost, with the attribute absent,
  \<open>1\<close>, \<open>''yes''\<close>, \<open>False\<close> and \<open>True\<close>, only the last is returned, although \<open>1\<close> and
  \<open>''yes''\<close> are truthy.
\<close>

theorem get_best_trials_only_True_witness:
  "get_all_trials
     (example_store
        [trial_of 0 COMPLETE [], 
         trial_of 1 COMPLETE [(SYSTEM_ATTR_COMPARISON_READY, PyInt 1)],
         trial_of 2 COMPLETE [(SYSTEM_ATTR_COMPARISON_READY, PyStr ''yes'')],
         trial_of 3 COMPLETE [(SYSTEM_ATTR_COMPARISON_READY, PyBool False)],
         trial_of 4 COMPLETE [(SYSTEM_ATTR_COMPARISON_READY, PyBool True)]] []) 0 False None
     = Inr [trial_of 0 COMPLETE [], 
         trial_of 1 COMPLETE [(SYSTEM_ATTR_COMPARISON_READY, PyInt 1)],
         trial_of 2 COMPLETE [(SYSTEM_ATTR_COMPARISON_READY, PyStr ''yes'')],
         trial_of 3 COMPLETE [(SYSTEM_ATTR_COMPARISON_READY, PyBool False)],
         trial_of 4 COMPLETE [(SYSTEM_ATTR_COMPARISON_READY, PyBool True)]]
   \<and> truthy (PyInt 1) \<and> truthy (PyStr ''yes'')
   \<and> get_best_trials 0
       (example_store
        [trial_of 0 COMPLETE [], 
         trial_of 1 COMPLETE [(SYSTEM_ATTR_COMPARISON_READY, PyInt 1)],
         trial_of 2 COMPLETE [(SYSTEM_ATTR_COMPARISON_READY, PyStr ''yes'')],
         trial_of 3 COMPLETE [(SYSTEM_ATTR_COMPARISON_READY, PyBool False)],
         trial_of 4 COMPLETE [(SYSTEM_ATTR_COMPARISON_READY, PyBool True)]] [])
     = Inr [trial_of 4 COMPLETE [(SYSTEM_ATTR_COMPARISON_READY, PyBool True)]]"
proof -
  let ?ts = "[trial_of 0 COMPLETE [], 
         trial_of 1 COMPLETE [(SYSTEM_ATTR_COMPARISON_READY, PyInt 1)],
         trial_of 2 COMPLETE [(SYSTEM_ATTR_COMPARISON_READY, PyStr ''yes'')],
         trial_of 3 COMPLETE [(SYSTEM_ATTR_COMPARISON_READY, PyBool False)],
         trial_of 4 COMPLETE [(SYSTEM_ATTR_COMPARISON_READY, PyBool True)]]"
  have a: "get_all_trials (example_store ?ts []) 0 False None = Inr ?ts"
    by (simp add: get_all_trials_def find_study_def example_store_def study_of_trials_def)
  from get_best_trials_only_True [OF a] obtain best where
    b: "get_best_trials 0 (example_store ?ts []) = Inr best"
    and r: "\<forall>t \<in> set best. dict_get (system_attrs t) SYSTEM_ATTR_COMPARISON_READY = PyBool True"
    by blast
  have c: "get_best_trials 0 (example_store ?ts [])
           = Inr [trial_of 4 COMPLETE [(SYSTEM_ATTR_COMPARISON_READY, PyBool True)]]"
    by (simp add: get_best_trials_def get_all_trials_def get_preferences_def find_study_def
        example_store_def study_of_trials_def comparison_ready_def dict_get_def deepcopy_def
        trial_of_def SYSTEM_ATTR_COMPARISON_READY_def)
  from a b c show ?thesis by simp
qed

text \<open>
  C4.  When the Ledger of the study holds the statement \<open>(a, b)\<close> and the statement
  \<open>(b, a)\<close>, \<open>get_best_trials\<close> returns and no trial it returns has number \<open>a\<close> or
  number \<open>b\<close>: both trials of the cycle are left out, whatever their state and
  readiness, and nothing detects or resolves the cycle.
\<close>

theorem get_best_trials_cycle:
  assumes "get_preferences sid st = Inr prefs"
    and "(a, b) \<in> set prefs" and "(b, a) \<in> set prefs"
  shows "\<exists>best. get_best_trials sid st = Inr best
           \<and> (\<forall>t \<in> set best. number t \<noteq> a \<and> number t \<noteq> b)"
proof -
  from assms(1) obtain s where s: "find_study st sid = Some s" "prefs = sr_ledger s"
    by (auto simp: get_preferences_Inr_iff)
  have "a \<in> snd ` set prefs" "b \<in> snd ` set prefs"
    using assms(2,3) by force+
  then have "\<forall>t \<in> set (map deepcopy (frontier (sr_trials s) (sr_ledger s))).
               number t \<noteq> a \<and> number t \<noteq> b"
    using frontier_never_worse s(2) by (auto simp: map_deepcopy)
  with get_best_trials_found [OF s(1)] show ?thesis by blast
qed

text \<open>
  An instance: trials 0, 1 and 2 are ready, \<open>report_preference\<close> records 0 over 1 and
  then 1 over 0; the frontier is trial 2 alone.
\<close>

theorem get_best_trials_cycle_witness:
  "report_all example_study
     [(One (trial_of 0 RUNNING ready_attrs), One (trial_of 1 COMPLETE ready_attrs)),
      (One (trial_of 1 COMPLETE ready_attrs), One (trial_of 0 RUNNING ready_attrs))]
     (example_store
        [trial_of 0 RUNNING ready_attrs, trial_of 1 COMPLETE ready_attrs,
         trial_of 2 RUNNING ready_attrs] [])
   = example_store
        [trial_of 0 RUNNING ready_attrs, trial_of 1 COMPLETE ready_attrs,
         trial_of 2 RUNNING ready_attrs] [(0, 1), (1, 0)]
   \<and> get_preferences 0
        (example_store
           [trial_of 0 RUNNING ready_attrs, trial_of 1 COMPLETE ready_attrs,
            trial_of 2 RUNNING ready_attrs] [(0, 1), (1, 0)])
      = Inr [(0, 1), (1, 0)]
   \<and> get_best_trials 0
        (example_store
           [trial_of 0 RUNNING ready_attrs, trial_of 1 COMPLETE ready_attrs,
            trial_of 2 RUNNING ready_attrs] [(0, 1), (1, 0)])
      = Inr [trial_of 2 RUNNING ready_attrs]"
proof -
  let ?ts = "[trial_of 0 RUNNING ready_attrs, trial_of 1 COMPLETE ready_attrs,
              trial_of 2 RUNNING ready_attrs]"
  let ?l = "[(0, 1), (1, 0)] :: (int \<times> int) list"
  have a: "report_all example_study
     [(One (trial_of 0 RUNNING ready_attrs), One (trial_of 1 COMPLETE ready_attrs)),
      (One (trial_of 1 COMPLETE ready_attrs), One (trial_of 0 RUNNING ready_attrs))]
     (example_store ?ts []) = example_store ?ts ?l"
    by (simp add: PreferentialStudy_report_preference_def find_study_def update_study_def
        report_preferences_def example_store_def
        study_of_trials_def example_study_def trial_of_def)
  have b: "get_preferences 0 (example_store ?ts ?l) = Inr ?l"
    by (simp add: get_preferences_def find_study_def example_store_def study_of_trials_def)
  have m: "(0, 1) \<in> set ?l" "(1, 0) \<in> set ?l" by simp_all
  from get_best_trials_cycle [OF b m] obtain best where
    c: "get_best_trials 0 (example_store ?ts ?l) = Inr best"
    and "\<forall>t \<in> set best. number t \<noteq> 0 \<and> number t \<noteq> 1" by blast
  have d: "get_best_trials 0 (example_store ?ts ?l) = Inr [trial_of 2 RUNNING ready_attrs]"
    by (simp add: get_best_trials_def get_all_trials_def get_preferences_def find_study_def
        example_store_def study_of_trials_def
        comparison_ready_def dict_get_def deepcopy_def trial_of_def ready_attrs_def
        SYSTEM_ATTR_COMPARISON_READY_def)
  from a b c d show ?thesis by simp
qed

section \<open>Reporting preferences\<close>

lemma comprehension_product:
  "concat (map (\<lambda>b. map (\<lambda>w. (number b, number w)) ws) bs)
   = List.product (map number bs) (map number ws)"
  by (induction bs) (simp_all add: comp_def)

lemma numbers_of_as_list: "numbers_of a = map number (as_list a)"
  by (cases a) (simp_all add: numbers_of_def)

lemma report_preference_statements:
  "PreferentialStudy_report_preference self better worse st
   = report_preferences (study_id (study_of self)) st (statements_of better worse)"
  by (simp add: PreferentialStudy_report_preference_def statements_of_def
      comprehension_product numbers_of_as_list)

lemma find_update_study:
  assumes "\<And>s. sr_id (f s) = sr_id s"
  shows "find (\<lambda>s. sr_id s = sid') (map (\<lambda>s. if sr_id s = sid then f s else s) ss)
         = map_option (\<lambda>s. if sr_id s = sid then f s else s) (find (\<lambda>s. sr_id s = sid') ss)"
  using assms by (induction ss) auto

lemma find_study_update_study:
  assumes "\<And>s. sr_id (f s) = sr_id s"
  shows "find_study (update_study st sid f) sid'
         = map_option (\<lambda>s. if sr_id s = sid then f s else s) (find_study st sid')"
  using find_update_study [of f sid' sid "studies st"] assms
  by (simp add: find_study_def update_study_def)

lemma find_study_sr_id: "find_study st sid = Some s \<Longrightarrow> sr_id s = sid"
  by (auto simp: find_study_def find_Some_iff)

lemma get_preferences_report_preferences:
  "get_preferences sid' (snd (report_preferences sid st ps))
   = (case get_preferences sid' st of
        Inl e \<Rightarrow> Inl e
      | Inr old \<Rightarrow> Inr (if sid' = sid then old @ ps else old))"
  by (auto simp: get_preferences_def report_preferences_def find_study_update_study
      dest: find_study_sr_id split: option.splits)

lemma get_preferences_other_study:
  "sid' \<noteq> sid \<Longrightarrow>
   get_preferences sid' (snd (report_preferences sid st ps)) = get_preferences sid' st"
  by (simp add: get_preferences_report_preferences split: sum.splits)

lemma fst_report_preferences:
  "fst (report_preferences sid st ps)
   = (case find_study st sid of None \<Rightarrow> Inl KeyError | Some _ \<Rightarrow> Inr ())"
  by (simp add: report_preferences_def split: option.splits)

lemma statements_of_nth:
  assumes "i < length (numbers_of better)" and "j < length (numbers_of worse)"
  shows "statements_of better worse ! (i * length (numbers_of worse) + j)
         = (numbers_of better ! i, numbers_of worse ! j)"
proof -
  let ?m = "length (numbers_of worse)"
  have "i * ?m + j < i * ?m + ?m" using assms(2) by simp
  also have "\<dots> = Suc i * ?m" by simp
  also have "\<dots> \<le> length (numbers_of better) * ?m"
    using assms(1) by (intro mult_le_mono1) simp
  finally have "i * ?m + j < length (numbers_of better) * ?m" .
  moreover have "(i * ?m + j) div ?m = i"
    using assms(2) by (cases "?m = 0") simp_all
  moreover have "(i * ?m + j) mod ?m = j"
    using assms(2) by simp
  ultimately show ?thesis
    by (simp add: statements_of_def product_nth)
qed

text \<open>
  C2.  For a study the store holds, \<open>report_preference\<close> is one call of the Ledger's
  append, with the statements of the spec: the cross product of the numbers of the
  better trials and the numbers of the worse trials, a single trial counting as the
  list of that trial.  The call succeeds, the Ledger of the study afterwards is the
  old Ledger followed by these statements, and the Ledger of every other study is
  as before.  The order is the nested one: there are as many statements as the
  product of the two lengths, and the statement at position \<open>i * length worse + j\<close>
  pairs the \<open>i\<close>-th better number with the \<open>j\<close>-th worse number, so better is the
  outer loop.  For \<open>[A, B]\<close> and \<open>[C, D]\<close> the statements are
  \<open>(A, C), (A, D), (B, C), (B, D)\<close>.
\<close>

theorem report_preference_cross_product:
  assumes "get_preferences (study_id (study_of self)) st = Inr old"
  shows "PreferentialStudy_report_preference self better worse st
           = report_preferences (study_id (study_of self)) st (statements_of better worse)
         \<and> fst (PreferentialStudy_report_preference self better worse st) = Inr ()
         \<and> get_preferences (study_id (study_of self))
              (snd (PreferentialStudy_report_preference self better worse st))
           = Inr (old @ statements_of better worse)
         \<and> (\<forall>sid'. sid' \<noteq> study_id (study_of self) \<longrightarrow>
               get_preferences sid' (snd (PreferentialStudy_report_preference self better worse st))
               = get_preferences sid' st)
         \<and> length (statements_of better worse)
           = length (numbers_of better) * length (numbers_of worse)
         \<and> (\<forall>i j. i < length (numbers_of better) \<longrightarrow> j < length (numbers_of worse) \<longrightarrow>
               statements_of better worse ! (i * length (numbers_of worse) + j)
               = (numbers_of better ! i, numbers_of worse ! j))
         \<and> numbers_of (One x) = [number x]
         \<and> statements_of (Many [A, B]) (Many [C, D])
           = [(number A, number C), (number A, number D),
              (number B, number C), (number B, number D)]"
proof -
  from assms obtain s where s: "find_study st (study_id (study_of self)) = Some s"
    by (auto simp: get_preferences_Inr_iff)
  have 1: "get_preferences (study_id (study_of self))
              (snd (PreferentialStudy_report_preference self better worse st))
           = Inr (old @ statements_of better worse)"
    using assms by (simp add: report_preference_statements get_preferences_report_preferences)
  have 2: "fst (PreferentialStudy_report_preference self better worse st) = Inr ()"
    using s by (simp add: report_preference_statements fst_report_preferences)
  have 3: "\<forall>sid'. sid' \<noteq> study_id (study_of self) \<longrightarrow>
               get_preferences sid' (snd (PreferentialStudy_report_preference self better worse st))
               = get_preferences sid' st"
    by (simp add: report_preference_statements get_preferences_other_study)
  have 4: "length (statements_of better worse)
           = length (numbers_of better) * length (numbers_of worse)"
    by (simp add: statements_of_def)
  have 5: "statements_of (Many [A, B]) (Many [C, D])
           = [(number A, number C), (number A, number D),
              (number B, number C), (number B, number D)]"
    by (simp add: statements_of_def numbers_of_def)
  have 6: "numbers_of (One x) = [number x]"
    by (simp add: numbers_of_def)
  from 1 2 3 4 5 6 statements_of_nth [of _ better _ worse] report_preference_statements
  show ?thesis by blast
qed

text \<open>
  An instance on a study whose Ledger holds \<open>(0, 1)\<close>: reporting \<open>[0, 1]\<close> over
  \<open>[2, 3]\<close> appends four statements in the nested order, and reporting the single
  trial 1 over \<open>[0, 0]\<close> appends \<open>(1, 0)\<close> twice.
\<close>

theorem report_preference_cross_product_witness:
  "get_preferences (study_id (study_of example_study))
     (example_store
        [trial_of 0 RUNNING [], trial_of 1 RUNNING [], trial_of 2 RUNNING [],
         trial_of 3 RUNNING []] [(0, 1)])
   = Inr [(0, 1)]
   \<and> PreferentialStudy_report_preference example_study
        (Many [trial_of 0 RUNNING [], trial_of 1 RUNNING []])
        (Many [trial_of 2 RUNNING [], trial_of 3 RUNNING []])
        (example_store
           [trial_of 0 RUNNING [], trial_of 1 RUNNING [], trial_of 2 RUNNING [],
            trial_of 3 RUNNING []] [(0, 1)])
     = (Inr (),
        example_store
           [trial_of 0 RUNNING [], trial_of 1 RUNNING [], trial_of 2 RUNNING [],
            trial_of 3 RUNNING []] [(0, 1), (0, 2), (0, 3), (1, 2), (1, 3)])
   \<and> PreferentialStudy_report_preference example_study
        (One (trial_of 1 RUNNING []))
        (Many [trial_of 0 RUNNING [], trial_of 0 RUNNING []])
        (example_store
           [trial_of 0 RUNNING [], trial_of 1 RUNNING [], trial_of 2 RUNNING [],
            trial_of 3 RUNNING []] [(0, 1)])
     = (Inr (),
        example_store
           [trial_of 0 RUNNING [], trial_of 1 RUNNING [], trial_of 2 RUNNING [],
            trial_of 3 RUNNING []] [(0, 1), (1, 0), (1, 0)])"
proof -
  let ?ts = "[trial_of 0 RUNNING [], trial_of 1 RUNNING [], trial_of 2 RUNNING [],
              trial_of 3 RUNNING []]"
  let ?st = "example_store ?ts [(0, 1)]"
  have a: "get_preferences (study_id (study_of example_study)) ?st = Inr [(0, 1)]"
    by (simp add: get_preferences_def find_study_def example_store_def study_of_trials_def
        example_study_def)
  have r: "\<And>ps. report_preferences (study_id (study_of example_study)) ?st ps
           = (Inr (), example_store ?ts ((0, 1) # ps))"
    by (simp add: report_preferences_def find_study_def update_study_def example_store_def
        study_of_trials_def example_study_def)
  have s1: "statements_of (Many [trial_of 0 RUNNING [], trial_of 1 RUNNING []])
              (Many [trial_of 2 RUNNING [], trial_of 3 RUNNING []])
            = [(0, 2), (0, 3), (1, 2), (1, 3)]"
    by (simp add: statements_of_def numbers_of_def trial_of_def)
  have s2: "statements_of (One (trial_of 1 RUNNING []))
              (Many [trial_of 0 RUNNING [], trial_of 0 RUNNING []])
            = [(1, 0), (1, 0)]"
    by (simp add: statements_of_def numbers_of_def trial_of_def)
  from report_preference_cross_product [OF a]
  have c1: "PreferentialStudy_report_preference example_study
              (Many [trial_of 0 RUNNING [], trial_of 1 RUNNING []])
              (Many [trial_of 2 RUNNING [], trial_of 3 RUNNING []]) ?st
            = report_preferences (study_id (study_of example_study)) ?st
                (statements_of (Many [trial_of 0 RUNNING [], trial_of 1 RUNNING []])
                   (Many [trial_of 2 RUNNING [], trial_of 3 RUNNING []]))"
    by blast
  from report_preference_cross_product [OF a]
  have c2: "PreferentialStudy_report_preference example_study
              (One (trial_of 1 RUNNING []))
              (Many [trial_of 0 RUNNING [], trial_of 0 RUNNING []]) ?st
            = report_preferences (study_id (study_of example_study)) ?st
                (statements_of (One (trial_of 1 RUNNING []))
                   (Many [trial_of 0 RUNNING [], trial_of 0 RUNNING []]))"
    by blast
  show ?thesis
    unfolding c1 c2 s1 s2 r using a by simp
qed

section \<open>Positional resolution under dense numbering\<close>

lemma dense_numbering_nth:
  assumes "dense_numbering ts" and "i < length ts"
  shows "number (ts ! i) = int i"
proof -
  have "map number ts ! i = map int [0..<length ts] ! i"
    using assms(1) by (simp add: dense_numbering_def)
  with assms(2) show ?thesis by simp
qed

lemma dense_numbering_range:
  assumes "dense_numbering ts" and "n \<in> number ` set ts"
  shows "0 \<le> n \<and> n < int (length ts)"
proof -
  from assms(2) obtain i where "i < length ts" "n = number (ts ! i)"
    by (auto simp: in_set_conv_nth)
  with dense_numbering_nth [OF assms(1)] show ?thesis by simp
qed

lemma py_index_dense:
  assumes "dense_numbering ts" and "n \<in> number ` set ts"
  shows "py_index ts n = Inr (ts ! nat n) \<and> number (ts ! nat n) = n"
proof -
  from dense_numbering_range [OF assms] have r: "0 \<le> n" "nat n < length ts" by auto
  with dense_numbering_nth [OF assms(1), of "nat n"] show ?thesis
    by (simp add: py_index_def)
qed

lemma lookup_number_dense:
  assumes "dense_numbering ts" and "n \<in> number ` set ts"
  shows "lookup_number ts n = Some (ts ! nat n)"
proof -
  from dense_numbering_range [OF assms] have r: "0 \<le> n" "nat n < length ts" by auto
  have "number (ts ! nat n) = n"
    using dense_numbering_nth [OF assms(1) r(2)] r(1) by simp
  moreover have "\<forall>j < nat n. number (ts ! j) \<noteq> n"
  proof (intro allI impI)
    fix j assume "j < nat n"
    with r have "j < length ts" by simp
    from dense_numbering_nth [OF assms(1) this] \<open>j < nat n\<close> show "number (ts ! j) \<noteq> n"
      by simp
  qed
  ultimately show ?thesis
    using r(2) unfolding lookup_number_def find_Some_iff by blast
qed

lemma resolve_pairs_dense:
  assumes "dense_numbering ts" and "references_exist ts prefs"
  shows "\<exists>rs. resolve_pairs ts prefs = Inr rs \<and> resolve_by_number ts prefs = Some rs
           \<and> map numbers_of_pair rs = prefs"
  using assms(2)
proof (induction prefs)
  case Nil
  show ?case by simp
next
  case (Cons p prefs)
  obtain b w where p: "p = (b, w)" by (cases p)
  from Cons.prems have bw: "b \<in> number ` set ts" "w \<in> number ` set ts"
    and rest: "references_exist ts prefs"
    by (simp_all add: references_exist_def p)
  from Cons.IH [OF rest] obtain rs where rs: "resolve_pairs ts prefs = Inr rs"
    "resolve_by_number ts prefs = Some rs" "map numbers_of_pair rs = prefs" by blast
  note ib = py_index_dense [OF assms(1) bw(1)] and iw = py_index_dense [OF assms(1) bw(2)]
  note lb = lookup_number_dense [OF assms(1) bw(1)] and lw = lookup_number_dense [OF assms(1) bw(2)]
  have "numbers_of_pair (ts ! nat b, ts ! nat w) = (b, w)"
    using ib iw by (simp add: numbers_of_pair_def)
  with rs ib iw lb lw show ?case
    by (simp add: p)
qed


lemma resolve_one_pair:
  "resolve_pairs ts [(b, w)] =
     (case py_index ts b of Inl e \<Rightarrow> Inl e
      | Inr tb \<Rightarrow> (case py_index ts w of Inl e \<Rightarrow> Inl e | Inr tw \<Rightarrow> Inr [(tb, tw)]))"
  by (simp split: sum.splits)

lemma dense_numbering_if_resolved:
  assumes d: "distinct (map number ts)"
    and nn: "\<forall>t \<in> set ts. 0 \<le> number t"
    and r: "\<forall>t \<in> set ts. resolve_pairs ts [(number t, number t)] = Inr [(t, t)]"
  shows "dense_numbering ts"
proof -
  have dt: "distinct ts" using d by (simp add: distinct_map)
  have "number (ts ! i) = int i" if i: "i < length ts" for i
  proof -
    let ?t = "ts ! i"
    from i have m: "?t \<in> set ts" by simp
    with nn have n0: "0 \<le> number ?t" by blast
    from r m have "resolve_pairs ts [(number ?t, number ?t)] = Inr [(?t, ?t)]" by blast
    then have "py_index ts (number ?t) = Inr ?t"
      by (auto simp: resolve_one_pair split: sum.splits)
    with n0 have "nat (number ?t) < length ts" "ts ! nat (number ?t) = ?t"
      by (auto simp: py_index_def split: if_splits)
    with dt i have "nat (number ?t) = i"
      by (simp add: nth_eq_iff_index_eq)
    with n0 show ?thesis by simp
  qed
  then have "map number ts = map int [0..<length ts]"
    by (intro nth_equalityI) simp_all
  then show ?thesis by (simp add: dense_numbering_def)
qed

lemma resolved_if_dense_numbering:
  assumes "dense_numbering ts" and "t \<in> set ts"
  shows "resolve_pairs ts [(number t, number t)] = Inr [(t, t)]"
proof -
  from assms(2) obtain i where i: "i < length ts" "t = ts ! i"
    by (auto simp: in_set_conv_nth)
  with dense_numbering_nth [OF assms(1) i(1)] have "number t = int i" by simp
  with i show ?thesis
    by (simp add: resolve_one_pair py_index_def)
qed

text \<open>
  C8.  Let \<open>ts\<close> be the trials of the study as the store lists them and \<open>prefs\<close> its
  Ledger.  \<open>get_preferences\<close> resolves every statement by indexing \<open>ts\<close> with the two
  numbers.  If the numbering is dense (the trial at position \<open>i\<close> has number \<open>i\<close>) and
  every statement references numbers of trials of the study, it returns, in Ledger
  order, for each statement \<open>(b, w)\<close> the pair of the trials numbered \<open>b\<close> and \<open>w\<close>:
  the result is the one of looking each number up, and the numbers of the resolved
  pairs are the statements.  Dense numbering is also needed: for a list of trials
  with distinct numbers, none negative, indexing resolves the statement about
  every trial to that trial only if the numbering is dense.
\<close>

theorem get_preferences_positional:
  assumes "get_all_trials st (study_id (study_of self)) False None = Inr ts"
    and "get_preferences (study_id (study_of self)) st = Inr prefs"
  shows "(dense_numbering ts \<and> references_exist ts prefs \<longrightarrow>
            (\<exists>rs. PreferentialStudy_get_preferences self dc st = Inr rs
                \<and> resolve_by_number ts prefs = Some rs
                \<and> map numbers_of_pair rs = prefs))
         \<and> PreferentialStudy_get_preferences self dc st = resolve_pairs ts prefs
         \<and> (distinct (map number ts) \<and> (\<forall>t \<in> set ts. 0 \<le> number t) \<longrightarrow>
              (dense_numbering ts \<longleftrightarrow>
                 (\<forall>t \<in> set ts. resolve_pairs ts [(number t, number t)] = Inr [(t, t)])))"
proof -
  have "Study_get_trials (study_of self) st dc None = Inr ts"
    using assms(1) by (simp add: Study_get_trials_def get_all_trials_Inr_iff)
  with assms(2) have e: "PreferentialStudy_get_preferences self dc st = resolve_pairs ts prefs"
    by (simp add: PreferentialStudy_get_preferences_def)
  have a: "dense_numbering ts \<and> references_exist ts prefs \<longrightarrow>
            (\<exists>rs. PreferentialStudy_get_preferences self dc st = Inr rs
                \<and> resolve_by_number ts prefs = Some rs
                \<and> map numbers_of_pair rs = prefs)"
    using resolve_pairs_dense [of ts prefs] e by simp
  have b: "distinct (map number ts) \<and> (\<forall>t \<in> set ts. 0 \<le> number t) \<longrightarrow>
              (dense_numbering ts \<longleftrightarrow>
                 (\<forall>t \<in> set ts. resolve_pairs ts [(number t, number t)] = Inr [(t, t)]))"
    using dense_numbering_if_resolved [of ts] resolved_if_dense_numbering [of ts] by blast
  from a e b show ?thesis by blast
qed

text \<open>
  An instance: three trials numbered 0, 1, 2 and the Ledger \<open>(2, 0), (0, 1), (2, 0)\<close>.
\<close>

theorem get_preferences_positional_witness:
  "get_all_trials
     (example_store [trial_of 0 COMPLETE [], trial_of 1 RUNNING [], trial_of 2 FAIL []]
        [(2, 0), (0, 1), (2, 0)])
     (study_id (study_of example_study)) False None
   = Inr [trial_of 0 COMPLETE [], trial_of 1 RUNNING [], trial_of 2 FAIL []]
   \<and> get_preferences (study_id (study_of example_study))
       (example_store [trial_of 0 COMPLETE [], trial_of 1 RUNNING [], trial_of 2 FAIL []]
          [(2, 0), (0, 1), (2, 0)])
     = Inr [(2, 0), (0, 1), (2, 0)]
   \<and> dense_numbering [trial_of 0 COMPLETE [], trial_of 1 RUNNING [], trial_of 2 FAIL []]
   \<and> references_exist [trial_of 0 COMPLETE [], trial_of 1 RUNNING [], trial_of 2 FAIL []]
        [(2, 0), (0, 1), (2, 0)]
   \<and> distinct (map number [trial_of 0 COMPLETE [], trial_of 1 RUNNING [], trial_of 2 FAIL []])
   \<and> PreferentialStudy_get_preferences example_study True
       (example_store [trial_of 0 COMPLETE [], trial_of 1 RUNNING [], trial_of 2 FAIL []]
          [(2, 0), (0, 1), (2, 0)])
     = Inr [(trial_of 2 FAIL [], trial_of 0 COMPLETE []),
            (trial_of 0 COMPLETE [], trial_of 1 RUNNING []),
            (trial_of 2 FAIL [], trial_of 0 COMPLETE [])]
   \<and> resolve_by_number [trial_of 0 COMPLETE [], trial_of 1 RUNNING [], trial_of 2 FAIL []]
        [(2, 0), (0, 1), (2, 0)]
     = Some [(trial_of 2 FAIL [], trial_of 0 COMPLETE []),
            (trial_of 0 COMPLETE [], trial_of 1 RUNNING []),
            (trial_of 2 FAIL [], trial_of 0 COMPLETE [])]"
proof -
  let ?ts = "[trial_of 0 COMPLETE [], trial_of 1 RUNNING [], trial_of 2 FAIL []]"
  let ?l = "[(2, 0), (0, 1), (2, 0)] :: (int \<times> int) list"
  let ?rs = "[(trial_of 2 FAIL [], trial_of 0 COMPLETE []),
            (trial_of 0 COMPLETE [], trial_of 1 RUNNING []),
            (trial_of 2 FAIL [], trial_of 0 COMPLETE [])]"
  have a: "get_all_trials (example_store ?ts ?l) (study_id (study_of example_study)) False None
           = Inr ?ts"
    by (simp add: get_all_trials_def find_study_def example_store_def study_of_trials_def
        example_study_def)
  have b: "get_preferences (study_id (study_of example_study)) (example_store ?ts ?l) = Inr ?l"
    by (simp add: get_preferences_def find_study_def example_store_def study_of_trials_def
        example_study_def)
  have d: "dense_numbering ?ts"
    by (simp add: dense_numbering_def trial_of_def upt_rec)
  have r: "references_exist ?ts ?l"
    by (simp add: references_exist_def trial_of_def)
  have n: "distinct (map number ?ts)"
    by (simp add: trial_of_def)
  have v: "resolve_pairs ?ts ?l = Inr ?rs"
    by (simp add: py_index_def)
  have w: "resolve_by_number ?ts ?l = Some ?rs"
    by (simp add: lookup_number_def trial_of_def)
  from get_preferences_positional [OF a b, of True]
  have "PreferentialStudy_get_preferences example_study True (example_store ?ts ?l)
        = resolve_pairs ?ts ?l" by blast
  with a b d r n v w show ?thesis by simp
qed

text \<open>
  Without dense numbering the index is not the number.  In a study whose trials
  are numbered 1, 2 and 3 the statement \<open>(1, 2)\<close> resolves to the trials numbered 2
  and 3, and the statement \<open>(3, 1)\<close> raises.
\<close>

lemma positional_resolution_sparse:
  "PreferentialStudy_get_preferences example_study True
     (example_store [trial_of 1 COMPLETE [], trial_of 2 COMPLETE [], trial_of 3 COMPLETE []]
        [(1, 2)])
   = Inr [(trial_of 2 COMPLETE [], trial_of 3 COMPLETE [])]
   \<and> PreferentialStudy_get_preferences example_study True
     (example_store [trial_of 1 COMPLETE [], trial_of 2 COMPLETE [], trial_of 3 COMPLETE []]
        [(3, 1)])
   = Inl IndexError"
  by (simp add: PreferentialStudy_get_preferences_def Study_get_trials_def get_all_trials_def
      get_preferences_def find_study_def example_store_def study_of_trials_def
      example_study_def py_index_def map_deepcopy)

section \<open>The round trip from reporting to reading\<close>

lemma get_all_trials_report_preferences:
  "get_all_trials (snd (report_preferences sid st ps)) sid' dc states
   = get_all_trials st sid' dc states"
  by (auto simp: get_all_trials_def report_preferences_def find_study_update_study
      split: option.splits)

lemma get_preferences_report_all:
  "get_preferences (study_id (study_of self)) st = Inr old \<Longrightarrow>
   get_preferences (study_id (study_of self)) (report_all self calls st)
   = Inr (old @ reported calls)"
proof (induction calls arbitrary: st old)
  case Nil
  then show ?case by (simp add: reported_def)
next
  case (Cons c calls)
  obtain b w where c: "c = (b, w)" by (cases c)
  let ?st = "snd (PreferentialStudy_report_preference self b w st)"
  have "get_preferences (study_id (study_of self)) ?st = Inr (old @ statements_of b w)"
    using Cons.prems
    by (simp add: report_preference_statements get_preferences_report_preferences)
  from Cons.IH [OF this] show ?case
    by (simp add: c reported_def)
qed

lemma get_all_trials_report_all:
  "get_all_trials (report_all self calls st) sid dc states = get_all_trials st sid dc states"
proof (induction calls arbitrary: st)
  case Nil
  show ?case by simp
next
  case (Cons c calls)
  obtain b w where c: "c = (b, w)" by (cases c)
  show ?case
    by (simp add: c Cons.IH report_preference_statements get_all_trials_report_preferences)
qed

text \<open>
  C3.  Take a study with dense numbering whose Ledger \<open>old\<close> references trials of the
  study, and a sequence of \<open>report_preference\<close> calls whose statements reference
  trials of the study.  After the calls the Ledger is \<open>old\<close> followed by the statements
  of the calls in the order of the calls, each call's statements in their nested
  order; \<open>get_preferences\<close> returns, and the pairs of trials it returns carry exactly
  these numbers in exactly this order: one pair per statement, a statement reported
  twice resolved twice, nothing dropped or merged.
\<close>

theorem get_preferences_round_trip:
  assumes "get_all_trials st (study_id (study_of self)) False None = Inr ts"
    and "dense_numbering ts"
    and "get_preferences (study_id (study_of self)) st = Inr old"
    and "references_exist ts (old @ reported calls)"
  shows "get_preferences (study_id (study_of self)) (report_all self calls st)
           = Inr (old @ reported calls)
         \<and> (\<exists>rs. PreferentialStudy_get_preferences self dc (report_all self calls st) = Inr rs
                \<and> map numbers_of_pair rs = old @ reported calls)"
proof -
  let ?st = "report_all self calls st"
  have l: "get_preferences (study_id (study_of self)) ?st = Inr (old @ reported calls)"
    by (rule get_preferences_report_all [OF assms(3)])
  have "Study_get_trials (study_of self) ?st dc None = Inr ts"
    using assms(1) by (simp add: Study_get_trials_def get_all_trials_report_all get_all_trials_Inr_iff)
  with l have "PreferentialStudy_get_preferences self dc ?st = resolve_pairs ts (old @ reported calls)"
    by (simp add: PreferentialStudy_get_preferences_def)
  with resolve_pairs_dense [OF assms(2,4)] l show ?thesis by auto
qed

text \<open>
  An instance: the Ledger holds \<open>(0, 1)\<close>; trial 2 is reported over \<open>[0, 1]\<close>, then
  twice over trial 0.  Five pairs come back, the last two the same.
\<close>

theorem get_preferences_round_trip_witness:
  "get_all_trials
     (example_store [trial_of 0 COMPLETE [], trial_of 1 RUNNING [], trial_of 2 RUNNING []]
        [(0, 1)])
     (study_id (study_of example_study)) False None
   = Inr [trial_of 0 COMPLETE [], trial_of 1 RUNNING [], trial_of 2 RUNNING []]
   \<and> dense_numbering [trial_of 0 COMPLETE [], trial_of 1 RUNNING [], trial_of 2 RUNNING []]
   \<and> get_preferences (study_id (study_of example_study))
       (example_store [trial_of 0 COMPLETE [], trial_of 1 RUNNING [], trial_of 2 RUNNING []]
          [(0, 1)])
     = Inr [(0, 1)]
   \<and> reported
        [(One (trial_of 2 RUNNING []), Many [trial_of 0 COMPLETE [], trial_of 1 RUNNING []]),
         (One (trial_of 2 RUNNING []), One (trial_of 0 COMPLETE [])),
         (One (trial_of 2 RUNNING []), One (trial_of 0 COMPLETE []))]
     = [(2, 0), (2, 1), (2, 0), (2, 0)]
   \<and> references_exist [trial_of 0 COMPLETE [], trial_of 1 RUNNING [], trial_of 2 RUNNING []]
        ([(0, 1)] @ [(2, 0), (2, 1), (2, 0), (2, 0)])
   \<and> PreferentialStudy_get_preferences example_study True
       (report_all example_study
          [(One (trial_of 2 RUNNING []), Many [trial_of 0 COMPLETE [], trial_of 1 RUNNING []]),
           (One (trial_of 2 RUNNING []), One (trial_of 0 COMPLETE [])),
           (One (trial_of 2 RUNNING []), One (trial_of 0 COMPLETE []))]
          (example_store [trial_of 0 COMPLETE [], trial_of 1 RUNNING [], trial_of 2 RUNNING []]
             [(0, 1)]))
     = Inr [(trial_of 0 COMPLETE [], trial_of 1 RUNNING []),
            (trial_of 2 RUNNING [], trial_of 0 COMPLETE []),
            (trial_of 2 RUNNING [], trial_of 1 RUNNING []),
            (trial_of 2 RUNNING [], trial_of 0 COMPLETE []),
            (trial_of 2 RUNNING [], trial_of 0 COMPLETE [])]"
proof -
  let ?ts = "[trial_of 0 COMPLETE [], trial_of 1 RUNNING [], trial_of 2 RUNNING []]"
  let ?calls = "[(One (trial_of 2 RUNNING []), Many [trial_of 0 COMPLETE [], trial_of 1 RUNNING []]),
           (One (trial_of 2 RUNNING []), One (trial_of 0 COMPLETE [])),
           (One (trial_of 2 RUNNING []), One (trial_of 0 COMPLETE []))]"
  let ?st = "example_store ?ts [(0, 1)]"
  let ?new = "[(2, 0), (2, 1), (2, 0), (2, 0)] :: (int \<times> int) list"
  have a: "get_all_trials ?st (study_id (study_of example_study)) False None = Inr ?ts"
    by (simp add: get_all_trials_def find_study_def example_store_def study_of_trials_def
        example_study_def)
  have d: "dense_numbering ?ts"
    by (simp add: dense_numbering_def trial_of_def upt_rec)
  have b: "get_preferences (study_id (study_of example_study)) ?st = Inr [(0, 1)]"
    by (simp add: get_preferences_def find_study_def example_store_def study_of_trials_def
        example_study_def)
  have c: "reported ?calls = ?new"
    by (simp add: reported_def statements_of_def numbers_of_def trial_of_def)
  have r: "references_exist ?ts ([(0, 1)] @ ?new)"
    by (simp add: references_exist_def trial_of_def)
  from r c have r': "references_exist ?ts ([(0, 1)] @ reported ?calls)" by simp
  have s: "report_all example_study ?calls ?st = example_store ?ts ([(0, 1)] @ ?new)"
    by (simp add: PreferentialStudy_report_preference_def find_study_def update_study_def
        report_preferences_def example_store_def study_of_trials_def example_study_def
        trial_of_def)
  have v: "PreferentialStudy_get_preferences example_study True
             (example_store ?ts ([(0, 1)] @ ?new))
           = Inr [(trial_of 0 COMPLETE [], trial_of 1 RUNNING []),
            (trial_of 2 RUNNING [], trial_of 0 COMPLETE []),
            (trial_of 2 RUNNING [], trial_of 1 RUNNING []),
            (trial_of 2 RUNNING [], trial_of 0 COMPLETE []),
            (trial_of 2 RUNNING [], trial_of 0 COMPLETE [])]"
    by (simp add: PreferentialStudy_get_preferences_def Study_get_trials_def
        get_all_trials_def get_preferences_def find_study_def example_store_def
        study_of_trials_def example_study_def py_index_def map_deepcopy)
  from get_preferences_round_trip [OF a d b r', of True]
  have "get_preferences (study_id (study_of example_study)) (report_all example_study ?calls ?st)
        = Inr ([(0, 1)] @ reported ?calls)" by blast
  with a d b c r s v show ?thesis by simp
qed

section \<open>Marking a trial\<close>

lemma set_attr_of_trial_simps:
  "trial_id (set_attr_of_trial tid key v t) = trial_id t"
  "number (set_attr_of_trial tid key v t) = number t"
  "state (set_attr_of_trial tid key v t) = state t"
  by (simp_all add: set_attr_of_trial_def)


lemma dict_get_dict_set: "dict_get (dict_set d key v) key = v"
  by (simp add: dict_get_def dict_set_def update_conv')


lemma comparison_ready_set:
  "comparison_ready (t\<lparr>system_attrs := dict_set (system_attrs t) SYSTEM_ATTR_COMPARISON_READY (PyBool True)\<rparr>)"
  by (simp add: comparison_ready_def dict_get_dict_set)



lemma all_trials_mark_trials:
  "all_trials (mark_trials tid key v st) = map (set_attr_of_trial tid key v) (all_trials st)"
  by (simp add: all_trials_def mark_trials_def map_concat comp_def)

lemma find_map_preserving:
  assumes "\<And>x. P (f x) = P x"
  shows "find P (map f xs) = map_option f (find P xs)"
  using assms by (induction xs) simp_all

lemma find_trial_mark_trials:
  "find_trial (mark_trials tid key v st) tid'
   = map_option (set_attr_of_trial tid key v) (find_trial st tid')"
  by (simp add: find_trial_def all_trials_mark_trials find_map_preserving set_attr_of_trial_simps)


lemma set_trial_system_attr_cases:
  "set_trial_system_attr st tid key v =
     (case find_trial st tid of
        None \<Rightarrow> (Inl KeyError, st)
      | Some t \<Rightarrow> if is_finished (state t) then (Inl UpdateFinishedTrialError, st)
                  else (Inr (), mark_trials tid key v st))"
  by (simp add: set_trial_system_attr_def mark_trials_def split: option.splits)








section \<open>Creating a study\<close>

lemma find_append_eq:
  "find P (xs @ ys) = (case find P xs of None \<Rightarrow> find P ys | Some x \<Rightarrow> Some x)"
  by (induction xs) simp_all

lemma fresh_study_id_above: "s \<in> set ss \<Longrightarrow> sr_id s < foldr (\<lambda>s m. max (sr_id s + 1) m) ss 0"
  by (induction ss) auto

lemma fresh_study_id_fresh: "s \<in> set (studies st) \<Longrightarrow> sr_id s \<noteq> fresh_study_id st"
  using fresh_study_id_above [of s "studies st"] by (simp add: fresh_study_id_def)

lemma find_study_fresh: "find_study st (fresh_study_id st) = None"
  using fresh_study_id_fresh [of _ st] by (auto simp: find_study_def find_None_iff)

lemma create_study_try_eq:
  "create_study_try st study_name uuid =
     (case find_study_by_name st (given_or_generated_name study_name uuid) of
        Some _ \<Rightarrow> (Inl DuplicatedStudyError, st)
      | None \<Rightarrow>
          (Inr (PreferentialStudy \<lparr>study_id = fresh_study_id st\<rparr>),
           with_new_study st (given_or_generated_name study_name uuid)))"
proof (cases "find_study_by_name st (given_or_generated_name study_name uuid)")
  case (Some s)
  then show ?thesis
    by (simp add: create_study_try_def optuna_create_study_def)
next
  case None
  let ?name = "given_or_generated_name study_name uuid"
  let ?new = "\<lparr>sr_id = fresh_study_id st, sr_name = ?name, sr_system_attrs = [],
               sr_user_attrs = [], sr_trials = [], sr_ledger = []\<rparr>"
  let ?st1 = "st\<lparr>studies := studies st @ [?new]\<rparr>"
  have c: "optuna_create_study st study_name uuid = (Inr \<lparr>study_id = fresh_study_id st\<rparr>, ?st1)"
    using None by (simp add: optuna_create_study_def Let_def)
  have f: "find_study ?st1 (fresh_study_id st) = Some ?new"
    using find_study_fresh [of st] by (simp add: find_study_def find_append_eq)
  have m: "map (\<lambda>s. if sr_id s = fresh_study_id st
                   then s\<lparr>sr_system_attrs :=
                           dict_set (sr_system_attrs s) SYSTEM_ATTR_PREFERENTIAL_STUDY (PyBool True)\<rparr>
                   else s) (studies st) = studies st"
    using fresh_study_id_fresh [of _ st] by (intro map_idI) auto
  have ds: "\<And>k v. dict_set [] k v = [(k, v)]"
    by (simp add: dict_set_def)
  have u: "update_study ?st1 (fresh_study_id st)
             (\<lambda>s. s\<lparr>sr_system_attrs :=
                      dict_set (sr_system_attrs s) SYSTEM_ATTR_PREFERENTIAL_STUDY (PyBool True)\<rparr>)
           = with_new_study st ?name"
    by (simp add: update_study_def with_new_study_def marked_new_study_def m ds)
  show ?thesis
    using None c f u by (simp add: create_study_try_def set_study_system_attr_def)
qed

lemma create_study_eq:
  "create_study storage_arg study_name load_if_exists uuid =
     (let st = (case storage_arg of None \<Rightarrow> new_storage | Some s \<Rightarrow> s);
          name = given_or_generated_name study_name uuid
      in case find_study_by_name st name of
           None \<Rightarrow> (Inr (PreferentialStudy \<lparr>study_id = fresh_study_id st\<rparr>),
                    with_new_study st name)
         | Some _ \<Rightarrow>
             if load_if_exists
             then (if study_name = None then (Inl AssertionError, st)
                   else if storage_arg = None then (Inl AssertionError, st)
                   else (load_study study_name st, st))
             else (Inl DuplicatedStudyError, st))"
proof -
  define st where "st = (case storage_arg of None \<Rightarrow> new_storage | Some s \<Rightarrow> s)"
  define name where "name = given_or_generated_name study_name uuid"
  show ?thesis
  proof (cases "find_study_by_name st name")
    case None
    then have "create_study_try st study_name uuid
               = (Inr (PreferentialStudy \<lparr>study_id = fresh_study_id st\<rparr>), with_new_study st name)"
      by (simp add: create_study_try_eq name_def)
    with None show ?thesis
      unfolding create_study_def Let_def st_def [symmetric] name_def [symmetric] by simp
  next
    case (Some s)
    then have "create_study_try st study_name uuid = (Inl DuplicatedStudyError, st)"
      by (simp add: create_study_try_eq name_def)
    with Some show ?thesis
      unfolding create_study_def Let_def st_def [symmetric] name_def [symmetric] by simp
  qed
qed


lemma load_study_eq:
  "load_study (Some n) st =
     (case find_study_by_name st n of
        None \<Rightarrow> Inl KeyError
      | Some s \<Rightarrow>
          (case find_study st (sr_id s) of
             None \<Rightarrow> Inl KeyError
           | Some s' \<Rightarrow>
               if truthy (dict_get (sr_system_attrs s') SYSTEM_ATTR_PREFERENTIAL_STUDY)
               then Inr (PreferentialStudy \<lparr>study_id = sr_id s\<rparr>)
               else Inl (ValueError ''The study is not a PreferentialStudy.'')))"
  by (simp add: load_study_def optuna_load_study_def get_study_system_attrs_def
      split: option.splits)

lemma load_study_has_marker: "load_study study_name st = Inr ps \<Longrightarrow> has_marker st ps"
  by (auto simp: load_study_def has_marker_def split: sum.splits if_splits)

lemma find_study_with_new_study:
  "find_study (with_new_study st name) sid =
     (case find_study st sid of
        Some s \<Rightarrow> Some s
      | None \<Rightarrow> if sid = fresh_study_id st then Some (marked_new_study st name) else None)"
  by (simp add: find_study_def with_new_study_def find_append_eq marked_new_study_def
      split: option.splits)

lemma find_study_by_name_with_new_study:
  "find_study_by_name (with_new_study st name) n =
     (case find_study_by_name st n of
        Some s \<Rightarrow> Some s
      | None \<Rightarrow> if n = name then Some (marked_new_study st name) else None)"
  by (simp add: find_study_by_name_def with_new_study_def find_append_eq marked_new_study_def
      split: option.splits)

lemma truthy_marker: "truthy (dict_get (sr_system_attrs (marked_new_study st name)) SYSTEM_ATTR_PREFERENTIAL_STUDY)"
  by (simp add: marked_new_study_def dict_get_def)

lemma load_created_study:
  assumes "find_study_by_name st name = None"
  shows "load_study (Some name) (with_new_study st name)
         = Inr (PreferentialStudy \<lparr>study_id = fresh_study_id st\<rparr>)"
  using assms find_study_fresh [of st] truthy_marker [of st name]
  by (simp add: load_study_eq find_study_by_name_with_new_study find_study_with_new_study
      marked_new_study_def)

lemma has_marker_created_study:
  "has_marker (with_new_study st name) (PreferentialStudy \<lparr>study_id = fresh_study_id st\<rparr>)"
  using find_study_fresh [of st] truthy_marker [of st name]
  by (simp add: has_marker_def get_study_system_attrs_def find_study_with_new_study)

lemma create_study_then_load:
  assumes "create_study storage_arg study_name load_if_exists uuid = (Inr ps, st')"
  shows "load_study (Some (given_or_generated_name study_name uuid)) st' = Inr ps"
proof -
  define st where "st = (case storage_arg of None \<Rightarrow> new_storage | Some s \<Rightarrow> s)"
  define name where "name = given_or_generated_name study_name uuid"
  note eq = create_study_eq [of storage_arg study_name load_if_exists uuid,
      unfolded Let_def, folded st_def name_def]
  show ?thesis
  proof (cases "find_study_by_name st name")
    case None
    with assms eq have "ps = PreferentialStudy \<lparr>study_id = fresh_study_id st\<rparr>"
      and "st' = with_new_study st name"
      by simp_all
    with load_created_study [OF None] show ?thesis by (simp add: name_def)
  next
    case (Some s)
    with assms eq have r: "(if load_if_exists
             then (if study_name = None then (Inl AssertionError, st)
                   else if storage_arg = None then (Inl AssertionError, st)
                   else (load_study study_name st, st))
             else (Inl DuplicatedStudyError, st)) = (Inr ps, st')"
      by simp
    then have l: "load_if_exists" "study_name \<noteq> None" "storage_arg \<noteq> None"
      by (auto split: if_splits)
    with r have "load_study study_name st = Inr ps" "st' = st" by auto
    moreover from l obtain n where "study_name = Some n" by auto
    ultimately show ?thesis by (simp add: given_or_generated_name_def)
  qed
qed

lemma create_study_has_marker:
  assumes "create_study storage_arg study_name load_if_exists uuid = (Inr ps, st')"
  shows "has_marker st' ps"
  using load_study_has_marker [OF create_study_then_load [OF assms]] .

section \<open>What the operations leave alone\<close>

lemma load_study_map_studies:
  assumes "\<And>s. sr_id (g s) = sr_id s" and "\<And>s. sr_name (g s) = sr_name s"
    and "\<And>s. sr_system_attrs (g s) = sr_system_attrs s"
  shows "load_study (Some n) (st\<lparr>studies := map g (studies st)\<rparr>) = load_study (Some n) st"
proof -
  have a: "find_study_by_name (st\<lparr>studies := map g (studies st)\<rparr>) n
           = map_option g (find_study_by_name st n)"
    by (simp add: find_study_by_name_def find_map_preserving assms)
  have b: "\<And>sid. find_study (st\<lparr>studies := map g (studies st)\<rparr>) sid
           = map_option g (find_study st sid)"
    by (simp add: find_study_def find_map_preserving assms)
  show ?thesis
    by (simp add: load_study_eq a b assms split: option.splits)
qed

lemma load_study_update_study:
  assumes "\<And>s. sr_id (f s) = sr_id s" and "\<And>s. sr_name (f s) = sr_name s"
    and "\<And>s. sr_system_attrs (f s) = sr_system_attrs s"
  shows "load_study (Some n) (update_study st sid f) = load_study (Some n) st"
  unfolding update_study_def
  by (rule load_study_map_studies) (simp_all add: assms)

lemma load_study_mark_trials:
  "load_study (Some n) (mark_trials tid key v st) = load_study (Some n) st"
  unfolding mark_trials_def
  by (rule load_study_map_studies) simp_all

lemma load_study_InrD:
  assumes "load_study (Some n) st = Inr ps"
  shows "\<exists>s s'. find_study_by_name st n = Some s \<and> find_study st (sr_id s) = Some s'
            \<and> truthy (dict_get (sr_system_attrs s') SYSTEM_ATTR_PREFERENTIAL_STUDY)
            \<and> ps = PreferentialStudy \<lparr>study_id = sr_id s\<rparr>"
proof (cases "find_study_by_name st n")
  case None
  with assms show ?thesis by (simp add: load_study_eq)
next
  case (Some s)
  note s = this
  show ?thesis
  proof (cases "find_study st (sr_id s)")
    case None
    with assms s show ?thesis by (simp add: load_study_eq)
  next
    case (Some s')
    with assms s show ?thesis by (simp add: load_study_eq split: if_splits)
  qed
qed

lemma load_study_with_new_study:
  assumes "load_study (Some n) st = Inr ps"
  shows "load_study (Some n) (with_new_study st name) = Inr ps"
proof -
  from load_study_InrD [OF assms] obtain s s' where
    "find_study_by_name st n = Some s" "find_study st (sr_id s) = Some s'"
    "truthy (dict_get (sr_system_attrs s') SYSTEM_ATTR_PREFERENTIAL_STUDY)"
    "ps = PreferentialStudy \<lparr>study_id = sr_id s\<rparr>" by blast
  then show ?thesis
    by (simp add: load_study_eq find_study_by_name_with_new_study find_study_with_new_study)
qed

lemma snd_report_preferences:
  "snd (report_preferences sid st ps) = st
   \<or> snd (report_preferences sid st ps)
     = update_study st sid (\<lambda>s. s\<lparr>sr_ledger := sr_ledger s @ ps\<rparr>)"
  by (simp add: report_preferences_def split: option.splits)

lemma snd_set_study_user_attr:
  "snd (set_study_user_attr st sid key v) = st
   \<or> snd (set_study_user_attr st sid key v)
     = update_study st sid (\<lambda>s. s\<lparr>sr_user_attrs := dict_set (sr_user_attrs s) key v\<rparr>)"
  by (simp add: set_study_user_attr_def split: option.splits)

lemma snd_set_trial_system_attr:
  "snd (set_trial_system_attr st tid key v) = st
   \<or> snd (set_trial_system_attr st tid key v) = mark_trials tid key v st"
  by (simp add: set_trial_system_attr_cases split: option.splits)

lemma snd_mark_comparison_ready:
  "snd (PreferentialStudy_mark_comparison_ready self x st) = st
   \<or> (\<exists>tid. snd (PreferentialStudy_mark_comparison_ready self x st)
          = mark_trials tid SYSTEM_ATTR_COMPARISON_READY (PyBool True) st)"
proof (cases x)
  case (TrialObj h)
  with snd_set_trial_system_attr [of st "live_trial_id h"] show ?thesis
    by (auto simp: PreferentialStudy_mark_comparison_ready_def)
next
  case (ValueObj v)
  show ?thesis
  proof (cases "as_int v")
    case None
    with ValueObj show ?thesis by (simp add: PreferentialStudy_mark_comparison_ready_def)
  next
    case (Some n)
    show ?thesis
    proof (cases "get_trial_id_from_study_id_trial_number st (study_id (study_of self)) n")
      case (Inl e)
      with ValueObj Some show ?thesis by (simp add: PreferentialStudy_mark_comparison_ready_def)
    next
      case (Inr tid)
      with ValueObj Some snd_set_trial_system_attr [of st tid] show ?thesis
        by (auto simp: PreferentialStudy_mark_comparison_ready_def)
    qed
  qed
qed

lemma snd_create_study:
  "snd (create_study (Some st) study_name load_if_exists uuid) = st
   \<or> snd (create_study (Some st) study_name load_if_exists uuid)
     = with_new_study st (given_or_generated_name study_name uuid)"
  by (simp add: create_study_eq Let_def split: option.splits)

lemma load_study_apply_op:
  assumes "load_study (Some n) st = Inr ps"
  shows "load_study (Some n) (apply_op st op) = Inr ps"
proof (cases op)
  case (ReportPreference self better worse)
  with snd_report_preferences [of "study_id (study_of self)" st "statements_of better worse"] assms
  show ?thesis
    by (auto simp: report_preference_statements load_study_update_study)
next
  case (MarkComparisonReady self x)
  with snd_mark_comparison_ready [of self x st] assms show ?thesis
    by (auto simp: load_study_mark_trials)
next
  case (SetUserAttr self key v)
  with snd_set_study_user_attr [of st "study_id (study_of self)" key v] assms show ?thesis
    by (auto simp: PreferentialStudy_set_user_attr_def load_study_update_study)
next
  case (CreateStudy study_name load_if_exists uuid)
  with snd_create_study [of st study_name load_if_exists uuid] assms show ?thesis
    by (auto simp: load_study_with_new_study)
qed

lemma load_study_run_ops:
  "load_study (Some n) st = Inr ps \<Longrightarrow> load_study (Some n) (run_ops st ops) = Inr ps"
  unfolding run_ops_def
  by (induction ops arbitrary: st) (simp_all add: load_study_apply_op)

section \<open>Readiness is kept\<close>






section \<open>The readiness marker\<close>

lemma set_trial_system_attr_ok:
  assumes "find_trial st tid = Some t" and "\<not> is_finished (state t)"
  shows "fst (set_trial_system_attr st tid SYSTEM_ATTR_COMPARISON_READY (PyBool True)) = Inr ()
         \<and> find_trial (snd (set_trial_system_attr st tid SYSTEM_ATTR_COMPARISON_READY (PyBool True))) tid
           = Some (t\<lparr>system_attrs :=
                       dict_set (system_attrs t) SYSTEM_ATTR_COMPARISON_READY (PyBool True)\<rparr>)
         \<and> is_ready (snd (set_trial_system_attr st tid SYSTEM_ATTR_COMPARISON_READY (PyBool True))) tid"
proof -
  let ?st = "mark_trials tid SYSTEM_ATTR_COMPARISON_READY (PyBool True) st"
  let ?t = "t\<lparr>system_attrs := dict_set (system_attrs t) SYSTEM_ATTR_COMPARISON_READY (PyBool True)\<rparr>"
  have r: "set_trial_system_attr st tid SYSTEM_ATTR_COMPARISON_READY (PyBool True) = (Inr (), ?st)"
    using assms by (simp add: set_trial_system_attr_cases)
  from assms(1) have "trial_id t = tid"
    by (auto simp: find_trial_def find_Some_iff)
  then have f: "find_trial ?st tid = Some ?t"
    using assms(1) by (simp add: find_trial_mark_trials set_attr_of_trial_def)
  then have "?t \<in> set (all_trials ?st)"
    by (auto simp: find_trial_def find_Some_iff)
  moreover have "trial_id ?t = tid" using \<open>trial_id t = tid\<close> by simp
  moreover have "comparison_ready ?t" by (rule comparison_ready_set)
  ultimately have "is_ready ?st tid"
    unfolding is_ready_def list_ex_iff by blast
  with r f show ?thesis by simp
qed

text \<open>
  C6.  \<open>mark_comparison_ready\<close> with an argument that is neither a live trial nor an
  integer (\<open>as_int\<close> gives nothing; a Python \<open>bool\<close> is an integer) raises
  \<open>RuntimeError\<close> at once and returns the store as it was, so no flag is set.  With
  a live trial it takes the trial's id; with an integer it asks the store for the id
  of the trial of that number in the study.  When the store holds an unfinished
  trial \<open>t\<close> of that id, the call succeeds and the store afterwards holds, under that
  id, \<open>t\<close> with the comparison-ready attribute set to \<open>True\<close>: the trial is ready.  (A
  missing trial or a finished one makes the store raise, and the call with it.)
\<close>

theorem mark_comparison_ready_argument:
  "(as_int v = None \<longrightarrow>
      PreferentialStudy_mark_comparison_ready self (ValueObj v) st
      = (Inl (RuntimeError ''Unexpected trial type''), st))
   \<and> (find_trial st (live_trial_id h) = Some t \<and> \<not> is_finished (state t) \<longrightarrow>
        fst (PreferentialStudy_mark_comparison_ready self (TrialObj h) st) = Inr ()
        \<and> find_trial (snd (PreferentialStudy_mark_comparison_ready self (TrialObj h) st))
             (live_trial_id h)
          = Some (t\<lparr>system_attrs :=
                      dict_set (system_attrs t) SYSTEM_ATTR_COMPARISON_READY (PyBool True)\<rparr>)
        \<and> is_ready (snd (PreferentialStudy_mark_comparison_ready self (TrialObj h) st))
             (live_trial_id h))
   \<and> (as_int w = Some n
        \<and> get_trial_id_from_study_id_trial_number st (study_id (study_of self)) n = Inr tid
        \<and> find_trial st tid = Some u \<and> \<not> is_finished (state u) \<longrightarrow>
        fst (PreferentialStudy_mark_comparison_ready self (ValueObj w) st) = Inr ()
        \<and> find_trial (snd (PreferentialStudy_mark_comparison_ready self (ValueObj w) st)) tid
          = Some (u\<lparr>system_attrs :=
                      dict_set (system_attrs u) SYSTEM_ATTR_COMPARISON_READY (PyBool True)\<rparr>)
        \<and> is_ready (snd (PreferentialStudy_mark_comparison_ready self (ValueObj w) st)) tid)"
proof (intro conjI impI)
  assume "as_int v = None"
  then show "PreferentialStudy_mark_comparison_ready self (ValueObj v) st
             = (Inl (RuntimeError ''Unexpected trial type''), st)"
    by (simp add: PreferentialStudy_mark_comparison_ready_def)
next
  assume a: "find_trial st (live_trial_id h) = Some t \<and> \<not> is_finished (state t)"
  have e: "PreferentialStudy_mark_comparison_ready self (TrialObj h) st
           = set_trial_system_attr st (live_trial_id h) SYSTEM_ATTR_COMPARISON_READY (PyBool True)"
    by (simp add: PreferentialStudy_mark_comparison_ready_def)
  from a set_trial_system_attr_ok [of st "live_trial_id h" t]
  show "fst (PreferentialStudy_mark_comparison_ready self (TrialObj h) st) = Inr ()"
    and "find_trial (snd (PreferentialStudy_mark_comparison_ready self (TrialObj h) st))
             (live_trial_id h)
          = Some (t\<lparr>system_attrs :=
                      dict_set (system_attrs t) SYSTEM_ATTR_COMPARISON_READY (PyBool True)\<rparr>)"
    and "is_ready (snd (PreferentialStudy_mark_comparison_ready self (TrialObj h) st))
             (live_trial_id h)"
    unfolding e by simp_all
next
  assume a: "as_int w = Some n
        \<and> get_trial_id_from_study_id_trial_number st (study_id (study_of self)) n = Inr tid
        \<and> find_trial st tid = Some u \<and> \<not> is_finished (state u)"
  then have e: "PreferentialStudy_mark_comparison_ready self (ValueObj w) st
           = set_trial_system_attr st tid SYSTEM_ATTR_COMPARISON_READY (PyBool True)"
    by (simp add: PreferentialStudy_mark_comparison_ready_def)
  from a set_trial_system_attr_ok [of st tid u]
  show "fst (PreferentialStudy_mark_comparison_ready self (ValueObj w) st) = Inr ()"
    and "find_trial (snd (PreferentialStudy_mark_comparison_ready self (ValueObj w) st)) tid
          = Some (u\<lparr>system_attrs :=
                      dict_set (system_attrs u) SYSTEM_ATTR_COMPARISON_READY (PyBool True)\<rparr>)"
    and "is_ready (snd (PreferentialStudy_mark_comparison_ready self (ValueObj w) st)) tid"
    unfolding e by simp_all
qed

lemmas mark_eval =
  PreferentialStudy_mark_comparison_ready_def set_trial_system_attr_def
  get_trial_id_from_study_id_trial_number_def find_study_def find_trial_def all_trials_def
  is_finished_def set_attr_of_trial_def dict_set_def example_store_def study_of_trials_def
  trial_of_def ready_attrs_def example_study_def

text \<open>
  An instance on two running trials, of ids 10 and 11: the string \<open>''0''\<close> is refused
  and the store stays, the live trial of id 10 marks trial 0, the integer 1 marks
  trial 1.
\<close>

theorem mark_comparison_ready_argument_witness:
  "as_int (PyStr ''0'') = None
   \<and> PreferentialStudy_mark_comparison_ready example_study (ValueObj (PyStr ''0''))
       (example_store [trial_of 0 RUNNING [], trial_of 1 RUNNING []] [])
     = (Inl (RuntimeError ''Unexpected trial type''),
        example_store [trial_of 0 RUNNING [], trial_of 1 RUNNING []] [])
   \<and> find_trial (example_store [trial_of 0 RUNNING [], trial_of 1 RUNNING []] [])
        (live_trial_id \<lparr>live_trial_id = 10\<rparr>) = Some (trial_of 0 RUNNING [])
   \<and> \<not> is_finished (state (trial_of 0 RUNNING []))
   \<and> PreferentialStudy_mark_comparison_ready example_study (TrialObj \<lparr>live_trial_id = 10\<rparr>)
       (example_store [trial_of 0 RUNNING [], trial_of 1 RUNNING []] [])
     = (Inr (), example_store [trial_of 0 RUNNING ready_attrs, trial_of 1 RUNNING []] [])
   \<and> as_int (PyInt 1) = Some 1
   \<and> get_trial_id_from_study_id_trial_number
        (example_store [trial_of 0 RUNNING [], trial_of 1 RUNNING []] [])
        (study_id (study_of example_study)) 1 = Inr 11
   \<and> find_trial (example_store [trial_of 0 RUNNING [], trial_of 1 RUNNING []] []) 11
     = Some (trial_of 1 RUNNING [])
   \<and> \<not> is_finished (state (trial_of 1 RUNNING []))
   \<and> PreferentialStudy_mark_comparison_ready example_study (ValueObj (PyInt 1))
       (example_store [trial_of 0 RUNNING [], trial_of 1 RUNNING []] [])
     = (Inr (), example_store [trial_of 0 RUNNING [], trial_of 1 RUNNING ready_attrs] [])
   \<and> is_ready
       (snd (PreferentialStudy_mark_comparison_ready example_study (ValueObj (PyInt 1))
          (example_store [trial_of 0 RUNNING [], trial_of 1 RUNNING []] []))) 11"
proof -
  let ?st = "example_store [trial_of 0 RUNNING [], trial_of 1 RUNNING []] []"
  have a1: "as_int (PyStr ''0'') = None" by simp
  have b1: "find_trial ?st (live_trial_id \<lparr>live_trial_id = 10\<rparr>) = Some (trial_of 0 RUNNING [])"
    by (simp add: mark_eval)
  have b2: "\<not> is_finished (state (trial_of 0 RUNNING []))"
    by (simp add: is_finished_def trial_of_def)
  have b3: "PreferentialStudy_mark_comparison_ready example_study (TrialObj \<lparr>live_trial_id = 10\<rparr>) ?st
     = (Inr (), example_store [trial_of 0 RUNNING ready_attrs, trial_of 1 RUNNING []] [])"
    by (simp add: mark_eval)
  have c1: "as_int (PyInt 1) = Some 1" by simp
  have c2: "get_trial_id_from_study_id_trial_number ?st (study_id (study_of example_study)) 1
            = Inr 11"
    by (simp add: mark_eval)
  have c3: "find_trial ?st 11 = Some (trial_of 1 RUNNING [])"
    by (simp add: mark_eval)
  have c4: "\<not> is_finished (state (trial_of 1 RUNNING []))"
    by (simp add: is_finished_def trial_of_def)
  have c5: "PreferentialStudy_mark_comparison_ready example_study (ValueObj (PyInt 1)) ?st
     = (Inr (), example_store [trial_of 0 RUNNING [], trial_of 1 RUNNING ready_attrs] [])"
    by (simp add: mark_eval)
  note th = mark_comparison_ready_argument [of "PyStr ''0''" example_study ?st
      "\<lparr>live_trial_id = 10\<rparr>" "trial_of 0 RUNNING []" "PyInt 1" 1 11 "trial_of 1 RUNNING []"]
  from th a1 have e: "PreferentialStudy_mark_comparison_ready example_study (ValueObj (PyStr ''0'')) ?st
     = (Inl (RuntimeError ''Unexpected trial type''), ?st)" by blast
  from th c1 c2 c3 c4 have r: "is_ready
       (snd (PreferentialStudy_mark_comparison_ready example_study (ValueObj (PyInt 1)) ?st)) 11"
    by blast
  from a1 e b1 b2 b3 c1 c2 c3 c4 c5 r show ?thesis by blast
qed

text \<open>
  C6, finished trials.  Marking does not set the flag for every handle or integer:
  the store refuses to change a finished trial.  On a study whose trial
  0, of id 10, is complete, the call with the integer 0 and the call with the live
  trial of id 10 both raise \<open>UpdateFinishedTrialError\<close>, the store is as before, the
  trial is not ready, and the frontier stays empty although the trial is complete
  and never lost.
\<close>

theorem mark_comparison_ready_finished_counterexample:
  "PreferentialStudy_mark_comparison_ready example_study (ValueObj (PyInt 0))
     (example_store [trial_of 0 COMPLETE []] [])
   = (Inl UpdateFinishedTrialError, example_store [trial_of 0 COMPLETE []] [])
   \<and> PreferentialStudy_mark_comparison_ready example_study (TrialObj \<lparr>live_trial_id = 10\<rparr>)
       (example_store [trial_of 0 COMPLETE []] [])
     = (Inl UpdateFinishedTrialError, example_store [trial_of 0 COMPLETE []] [])
   \<and> \<not> is_ready
         (snd (PreferentialStudy_mark_comparison_ready example_study (ValueObj (PyInt 0))
                 (example_store [trial_of 0 COMPLETE []] []))) 10
   \<and> \<not> is_ready
         (snd (PreferentialStudy_mark_comparison_ready example_study
                 (TrialObj \<lparr>live_trial_id = 10\<rparr>)
                 (example_store [trial_of 0 COMPLETE []] []))) 10
   \<and> get_best_trials 0
       (snd (PreferentialStudy_mark_comparison_ready example_study (ValueObj (PyInt 0))
               (example_store [trial_of 0 COMPLETE []] [])))
     = Inr []"
proof -
  let ?st = "example_store [trial_of 0 COMPLETE []] []"
  have a: "PreferentialStudy_mark_comparison_ready example_study (ValueObj (PyInt 0)) ?st
           = (Inl UpdateFinishedTrialError, ?st)"
    by (simp add: mark_eval)
  have b: "PreferentialStudy_mark_comparison_ready example_study
             (TrialObj \<lparr>live_trial_id = 10\<rparr>) ?st
           = (Inl UpdateFinishedTrialError, ?st)"
    by (simp add: mark_eval)
  have c: "\<not> is_ready ?st 10"
    by (simp add: is_ready_def all_trials_def comparison_ready_def dict_get_def
        example_store_def study_of_trials_def trial_of_def)
  have d: "get_best_trials 0 ?st = Inr []"
    by (simp add: get_best_trials_def get_all_trials_def get_preferences_def find_study_def
        example_store_def study_of_trials_def comparison_ready_def dict_get_def trial_of_def)
  from a b c d show ?thesis by simp
qed



section \<open>The preferential marker\<close>

lemma load_study_rejects:
  assumes "optuna_load_study st study_name = Inr s0"
    and "get_study_system_attrs st (study_id s0) = Inr a"
    and "\<not> truthy (dict_get a SYSTEM_ATTR_PREFERENTIAL_STUDY)"
  shows "load_study study_name st = Inl (ValueError ''The study is not a PreferentialStudy.'')"
  using assms by (simp add: load_study_def)

lemma create_study_fresh_name:
  assumes "find_study_by_name st (given_or_generated_name study_name uuid) = None"
  shows "create_study (Some st) study_name load_if_exists uuid
         = (Inr (PreferentialStudy \<lparr>study_id = fresh_study_id st\<rparr>),
            with_new_study st (given_or_generated_name study_name uuid))"
  using assms by (simp add: create_study_eq)

lemma create_study_no_storage:
  "create_study None study_name load_if_exists uuid
   = (Inr (PreferentialStudy \<lparr>study_id = 0\<rparr>),
      with_new_study new_storage (given_or_generated_name study_name uuid))"
  by (simp add: create_study_eq new_storage_def find_study_by_name_def fresh_study_id_def)

text \<open>
  C5.  When optuna loads the study and the store's system attributes of that study
  hold no truthy value under the preferential key (the key is absent, or its value
  is \<open>None\<close>, \<open>False\<close>, 0 or empty), \<open>load_study\<close> raises the \<open>ValueError\<close> of a study
  that is not preferential.  Whenever \<open>create_study\<close> returns a study, \<open>load_study\<close>
  with the study's name on the store it leaves returns that same study, and still
  does after any run of the module's writing operations: the marker set at creation
  stays.  Creation itself succeeds whenever the name is not taken, and always
  without a store argument.
\<close>

theorem load_study_requires_marker:
  "(optuna_load_study st study_name = Inr s0
      \<and> get_study_system_attrs st (study_id s0) = Inr a
      \<and> \<not> truthy (dict_get a SYSTEM_ATTR_PREFERENTIAL_STUDY) \<longrightarrow>
      load_study study_name st = Inl (ValueError ''The study is not a PreferentialStudy.''))
   \<and> (create_study storage_arg name load_if_exists uuid = (Inr ps, st') \<longrightarrow>
        load_study (Some (given_or_generated_name name uuid)) st' = Inr ps
        \<and> load_study (Some (given_or_generated_name name uuid)) (run_ops st' ops) = Inr ps)
   \<and> (find_study_by_name st1 (given_or_generated_name name uuid) = None \<longrightarrow>
        create_study (Some st1) name load_if_exists uuid
        = (Inr (PreferentialStudy \<lparr>study_id = fresh_study_id st1\<rparr>),
           with_new_study st1 (given_or_generated_name name uuid)))
   \<and> create_study None name load_if_exists uuid
     = (Inr (PreferentialStudy \<lparr>study_id = 0\<rparr>),
        with_new_study new_storage (given_or_generated_name name uuid))"
  using load_study_rejects [of st study_name s0 a]
    create_study_then_load [of storage_arg name load_if_exists uuid ps st']
    load_study_run_ops [of "given_or_generated_name name uuid" st' ps ops]
    create_study_fresh_name [of st1 name uuid load_if_exists]
    create_study_no_storage [of name load_if_exists uuid]
  by blast

lemmas study_eval =
  load_study_def optuna_load_study_def get_study_system_attrs_def find_study_by_name_def
  find_study_def dict_get_def study_of_trials_def

text \<open>
  An instance: the study \<open>s\<close> of the store without marker is refused; \<open>create_study\<close>
  adds a study \<open>t\<close> of id 1 to that store, which loads, also after a user attribute
  and another creation, while \<open>s\<close> is still refused.
\<close>

theorem load_study_requires_marker_witness:
  "optuna_load_study plain_store (Some ''s'') = Inr \<lparr>study_id = 0\<rparr>
   \<and> get_study_system_attrs plain_store (study_id \<lparr>study_id = 0\<rparr>) = Inr []
   \<and> \<not> truthy (dict_get [] SYSTEM_ATTR_PREFERENTIAL_STUDY)
   \<and> load_study (Some ''s'') plain_store
     = Inl (ValueError ''The study is not a PreferentialStudy.'')
   \<and> find_study_by_name plain_store (given_or_generated_name (Some ''t'') ''u'') = None
   \<and> create_study (Some plain_store) (Some ''t'') False ''u''
     = (Inr (PreferentialStudy \<lparr>study_id = 1\<rparr>), with_new_study plain_store ''t'')
   \<and> load_study (Some ''t'') (with_new_study plain_store ''t'')
     = Inr (PreferentialStudy \<lparr>study_id = 1\<rparr>)
   \<and> load_study (Some ''t'')
       (run_ops (with_new_study plain_store ''t'')
          [SetUserAttr (PreferentialStudy \<lparr>study_id = 1\<rparr>) ''note'' (PyInt 3),
           CreateStudy (Some ''w'') False ''u''])
     = Inr (PreferentialStudy \<lparr>study_id = 1\<rparr>)
   \<and> load_study (Some ''s'') (with_new_study plain_store ''t'')
     = Inl (ValueError ''The study is not a PreferentialStudy.'')"
proof -
  let ?ops = "[SetUserAttr (PreferentialStudy \<lparr>study_id = 1\<rparr>) ''note'' (PyInt 3),
           CreateStudy (Some ''w'') False ''u'']"
  have a1: "optuna_load_study plain_store (Some ''s'') = Inr \<lparr>study_id = 0\<rparr>"
    by (simp add: plain_store_def study_eval)
  have a2: "get_study_system_attrs plain_store (study_id \<lparr>study_id = 0\<rparr>) = Inr []"
    by (simp add: plain_store_def study_eval)
  have a3: "\<not> truthy (dict_get [] SYSTEM_ATTR_PREFERENTIAL_STUDY)"
    by (simp add: dict_get_def)
  have b1: "find_study_by_name plain_store (given_or_generated_name (Some ''t'') ''u'') = None"
    by (simp add: plain_store_def study_eval given_or_generated_name_def)
  have f: "fresh_study_id plain_store = 1"
    by (simp add: fresh_study_id_def plain_store_def study_of_trials_def)
  have g: "given_or_generated_name (Some ''t'') ''u'' = ''t''"
    by (simp add: given_or_generated_name_def)
  note th = load_study_requires_marker [of plain_store "Some ''s''" "\<lparr>study_id = 0\<rparr>" "[]"
      "Some plain_store" "Some ''t''" False "''u''" "PreferentialStudy \<lparr>study_id = 1\<rparr>"
      "with_new_study plain_store ''t''" ?ops plain_store]
  from th a1 a2 a3 have r: "load_study (Some ''s'') plain_store
     = Inl (ValueError ''The study is not a PreferentialStudy.'')" by blast
  from th b1 have c: "create_study (Some plain_store) (Some ''t'') False ''u''
     = (Inr (PreferentialStudy \<lparr>study_id = 1\<rparr>), with_new_study plain_store ''t'')"
    by (simp add: f g)
  from th c have l: "load_study (Some ''t'') (with_new_study plain_store ''t'')
     = Inr (PreferentialStudy \<lparr>study_id = 1\<rparr>)"
    and p: "load_study (Some ''t'') (run_ops (with_new_study plain_store ''t'') ?ops)
     = Inr (PreferentialStudy \<lparr>study_id = 1\<rparr>)"
    by (simp_all add: g)
  have o: "load_study (Some ''s'') (with_new_study plain_store ''t'')
     = Inl (ValueError ''The study is not a PreferentialStudy.'')"
  proof -
    have n: "find_study_by_name plain_store ''s'' = Some (study_of_trials [] [] [])"
      by (simp add: plain_store_def find_study_by_name_def study_of_trials_def)
    have i: "find_study plain_store 0 = Some (study_of_trials [] [] [])"
      by (simp add: plain_store_def find_study_def study_of_trials_def)
    have z: "sr_id (study_of_trials [] [] []) = 0" "sr_system_attrs (study_of_trials [] [] []) = []"
      by (simp_all add: study_of_trials_def)
    show ?thesis
      by (simp add: load_study_eq find_study_by_name_with_new_study find_study_with_new_study
          n i z dict_get_def)
  qed
  from a1 a2 a3 r b1 c l p o show ?thesis by blast
qed

lemma create_study_existing_unmarked:
  assumes "find_study_by_name st n = Some s"
    and "get_study_system_attrs st (sr_id s) = Inr a"
    and "\<not> truthy (dict_get a SYSTEM_ATTR_PREFERENTIAL_STUDY)"
  shows "create_study (Some st) (Some n) True uuid
         = (Inl (ValueError ''The study is not a PreferentialStudy.''), st)"
proof -
  have "load_study (Some n) st = Inl (ValueError ''The study is not a PreferentialStudy.'')"
    using assms by (simp add: load_study_def optuna_load_study_def)
  with assms(1) show ?thesis
    by (simp add: create_study_eq given_or_generated_name_def)
qed

text \<open>
  C9.  \<open>create_study\<close> with \<open>load_if_exists\<close>, a store and the name of a study the
  store already holds: when the system attributes of that study hold no truthy
  marker, the call raises the \<open>ValueError\<close> of \<open>load_study\<close> and leaves the store as
  it was; it does not return the study.  Hence every study \<open>create_study\<close> returns,
  by creation or by the fallback, and every study \<open>load_study\<close> returns carries a
  truthy marker in the store.
\<close>

theorem create_study_fallback_checks_marker:
  "(find_study_by_name st n = Some s
      \<and> get_study_system_attrs st (sr_id s) = Inr a
      \<and> \<not> truthy (dict_get a SYSTEM_ATTR_PREFERENTIAL_STUDY) \<longrightarrow>
      create_study (Some st) (Some n) True uuid
      = (Inl (ValueError ''The study is not a PreferentialStudy.''), st))
   \<and> (create_study storage_arg name load_if_exists uuid' = (Inr ps, st') \<longrightarrow> has_marker st' ps)
   \<and> (load_study name' st1 = Inr ps1 \<longrightarrow> has_marker st1 ps1)"
  using create_study_existing_unmarked [of st n s a uuid]
    create_study_has_marker [of storage_arg name load_if_exists uuid' ps st']
    load_study_has_marker [of name' st1 ps1]
  by blast

text \<open>
  An instance: on the store without marker the fallback raises; on a store whose
  study \<open>s\<close> is preferential the fallback returns that study, which carries the
  marker.
\<close>

theorem create_study_fallback_checks_marker_witness:
  "find_study_by_name plain_store ''s'' = Some (study_of_trials [] [] [])
   \<and> get_study_system_attrs plain_store (sr_id (study_of_trials [] [] [])) = Inr []
   \<and> \<not> truthy (dict_get [] SYSTEM_ATTR_PREFERENTIAL_STUDY)
   \<and> create_study (Some plain_store) (Some ''s'') True ''u''
     = (Inl (ValueError ''The study is not a PreferentialStudy.''), plain_store)
   \<and> create_study (Some (example_store [] [])) (Some ''s'') True ''u''
     = (Inr example_study, example_store [] [])
   \<and> has_marker (example_store [] []) example_study
   \<and> load_study (Some ''s'') (example_store [] []) = Inr example_study"
proof -
  have a1: "find_study_by_name plain_store ''s'' = Some (study_of_trials [] [] [])"
    by (simp add: plain_store_def find_study_by_name_def study_of_trials_def)
  have a2: "get_study_system_attrs plain_store (sr_id (study_of_trials [] [] [])) = Inr []"
    by (simp add: plain_store_def study_eval)
  have a3: "\<not> truthy (dict_get [] SYSTEM_ATTR_PREFERENTIAL_STUDY)"
    by (simp add: dict_get_def)
  have l: "load_study (Some ''s'') (example_store [] []) = Inr example_study"
    by (simp add: study_eval example_store_def example_study_def)
  have c: "create_study (Some (example_store [] [])) (Some ''s'') True ''u''
     = (Inr example_study, example_store [] [])"
    using l by (simp add: create_study_eq given_or_generated_name_def find_study_by_name_def
        example_store_def study_of_trials_def)
  note th = create_study_fallback_checks_marker [of plain_store "''s''" "study_of_trials [] [] []"
      "[]" "''u''" "Some (example_store [] [])" "Some ''s''" True "''u''" example_study
      "example_store [] []" "Some ''s''" "example_store [] []" example_study]
  from th a1 a2 a3 have r: "create_study (Some plain_store) (Some ''s'') True ''u''
     = (Inl (ValueError ''The study is not a PreferentialStudy.''), plain_store)" by blast
  from th c have h: "has_marker (example_store [] []) example_study" by blast
  from a1 a2 a3 r c h l show ?thesis by blast
qed

end
